theory Spec2Isabelle
  imports Complex_Main
begin

section \<open>Numbers\<close>

text \<open>
  Every \<open>Number\<close> of the schemas and every number of the controllers is an IEEE double.
  A finite double is represented by its value, a rational number, and each arithmetic
  operation of the source computes the exact result and rounds it to the nearest double,
  ties to even: 53 significant bits, with gradual underflow below \<open>2^-1022\<close>. The
  comparisons of finite doubles are those of their values. Outside this model: the
  infinities and NaN as stored values (a result beyond \<open>2^1024\<close>, a request amount
  \<open>Infinity\<close>, a division by 0) and the sign of zero.
\<close>

type_synonym doble = rat

text \<open>The number of bits of a natural number: 0 for 0, \<open>k + 1\<close> from \<open>2^k\<close> to \<open>2^(k+1) - 1\<close>.\<close>

fun longitudBits :: "nat \<Rightarrow> nat" where
  "longitudBits n = (if n = 0 then 0 else Suc (longitudBits (n div 2)))"

declare longitudBits.simps [simp del]

text \<open>\<open>2^e\<close> for an integer exponent.\<close>

definition dosA :: "int \<Rightarrow> rat" where
  "dosA e = (if 0 \<le> e then 2 ^ nat e else 1 / 2 ^ nat (- e))"

text \<open>
  The binary exponent of a non-zero value: the \<open>e\<close> with \<open>2^e \<le> |x| < 2^(e+1)\<close>, and
  \<open>-1022\<close> for the subnormal values below \<open>2^-1022\<close>.
\<close>

definition exponente :: "rat \<Rightarrow> int" where
  "exponente x =
     max (- 1022)
       (if 1 \<le> \<bar>x\<bar> then int (longitudBits (nat \<lfloor>\<bar>x\<bar>\<rfloor>)) - 1
        else - int (longitudBits (nat (\<lceil>1 / \<bar>x\<bar>\<rceil> - 1))))"

text \<open>The nearest integer, a tie going to the even one.\<close>

definition redondeoPar :: "rat \<Rightarrow> int" where
  "redondeoPar y =
     (if y - of_int \<lfloor>y\<rfloor> < 1 / 2 then \<lfloor>y\<rfloor>
      else if 1 / 2 < y - of_int \<lfloor>y\<rfloor> then \<lfloor>y\<rfloor> + 1
      else if even \<lfloor>y\<rfloor> then \<lfloor>y\<rfloor> else \<lfloor>y\<rfloor> + 1)"

text \<open>
  The nearest double of an exact result: the nearest multiple of \<open>2^(e - 52)\<close>, where \<open>e\<close>
  is the exponent of the result.
\<close>

definition redondear :: "rat \<Rightarrow> doble" where
  "redondear x =
     (if x = 0 then 0
      else of_int (redondeoPar (x / dosA (exponente x - 52))) * dosA (exponente x - 52))"

text \<open>The operators \<open>+\<close>, \<open>-\<close>, \<open>*\<close>, \<open>/\<close> of the source, and \<open>Math.floor\<close> (which is exact).\<close>

definition suma :: "doble \<Rightarrow> doble \<Rightarrow> doble" where
  "suma a b = redondear (a + b)"

definition resta :: "doble \<Rightarrow> doble \<Rightarrow> doble" where
  "resta a b = redondear (a - b)"

definition producto :: "doble \<Rightarrow> doble \<Rightarrow> doble" where
  "producto a b = redondear (a * b)"

definition cociente :: "doble \<Rightarrow> doble \<Rightarrow> doble" where
  "cociente a b = redondear (a / b)"

definition piso :: "doble \<Rightarrow> doble" where
  "piso a = of_int \<lfloor>a\<rfloor>"

text \<open>
  An integer of magnitude below \<open>2^52\<close>: the sum and the difference of two of them are
  integers below \<open>2^53\<close>, which are doubles, so that adding and subtracting them does not
  round.
\<close>

definition entero :: "doble \<Rightarrow> bool" where
  "entero x = (of_int \<lfloor>x\<rfloor> = x \<and> \<bar>x\<bar> < 2 ^ 52)"

section \<open>Data model (the Mongoose schemas under src/models)\<close>

text \<open>
  A MongoDB collection is a finite map from the document's \<open>_id\<close> to the document.
  Object ids are natural numbers, dates are milliseconds since the epoch, and every field
  of type \<open>Number\<close> is a double. Field names are the schema's; a prefix is added where
  two schemas share a field name.
\<close>

type_synonym objectId = nat
type_synonym fecha = int

text \<open>One entry of \<open>Usuario.puntosPorEmpresa\<close>.\<close>

record puntosEmpresa =
  pe_empresa :: "objectId option"
  pe_puntos :: doble
  pe_ultimaTransaccion :: fecha

text \<open>\<open>Usuario.configuracionPuntos\<close>: for each \<open>gastoRequerido\<close> pesos, \<open>puntosOtorgados\<close> points.\<close>

record configPuntos =
  gastoRequerido :: doble
  puntosOtorgados :: doble

record usuario =
  activo :: bool
  puntos :: doble
  puntosPorEmpresa :: "puntosEmpresa list"
  totalTransacciones :: doble
  totalIngresos :: doble
  configuracionPuntos :: "configPuntos option"

record recompensa =
  rec_empresa :: objectId
  puntosRequeridos :: doble
  stock :: doble
  rec_activo :: bool
  canjesRealizados :: doble

datatype estadoCanje = Pendiente | Entregado | Cancelado

record canje =
  cj_cliente :: objectId
  cj_recompensa :: objectId
  cj_empresa :: objectId
  puntosCanjeados :: doble
  cj_puntosAnteriores :: doble
  puntosRestantes :: doble
  codigoCanje :: string
  estado :: estadoCanje
  fechaEntrega :: "fecha option"

record qrToken =
  clienteId :: objectId
  expiraEn :: fecha
  usado :: bool
  usadoPor :: "objectId option"

record transaccion =
  tx_cliente :: objectId
  tx_empresa :: objectId
  tx_monto :: doble
  tx_puntosOtorgados :: doble
  tx_puntosAnteriores :: doble
  puntosNuevos :: doble
  tx_qrToken :: string

text \<open>The persistent state: the five collections the controllers read and write.\<close>

record baseDatos =
  usuarios :: "objectId \<rightharpoonup> usuario"
  recompensas :: "objectId \<rightharpoonup> recompensa"
  canjes :: "objectId \<rightharpoonup> canje"
  qrTokens :: "string \<rightharpoonup> qrToken"
  transacciones :: "transaccion list"

text \<open>The result of \<open>parseFloat\<close>: not a number, or a finite double.\<close>

datatype numero = NaN | Num doble

section \<open>Responses\<close>

text \<open>The \<open>codigo\<close> field of a failed QR validation (src/services/qrService.js).\<close>

datatype codigoQR = QR_NOT_FOUND | QR_EXPIRED | QR_USED | CLIENT_NOT_FOUND | CLIENT_INACTIVE

text \<open>
  One constructor for each failure response of the controllers. The two balance errors
  carry the \<open>data\<close> object of the response: points held, points required, points missing.
  \<open>ErrorServidor\<close> is the 500 response of a \<open>catch\<close> block.
\<close>

datatype error =
    TokenYMontoRequeridos
  | MontoInvalido
  | QrInvalido codigoQR
  | IdRecompensaRequerido
  | RecompensaNoEncontrada
  | RecompensaNoDisponible
  | RecompensaAgotada
  | PuntosInsuficientes doble doble doble
  | PuntosInsuficientesEmpresa doble doble doble
  | CanjeNoEncontrado
  | CanjeYaEntregado
  | CanjeCancelado
  | CanjeNoCancelable
  | ErrorServidor

section \<open>QR service (src/services/qrService.js, src/models/QrToken.js)\<close>

text \<open>\<open>estaExpirado\<close>: \<open>new Date() > this.expiraEn\<close>.\<close>

definition estaExpirado :: "fecha \<Rightarrow> qrToken \<Rightarrow> bool" where
  "estaExpirado ahora t = (ahora > expiraEn t)"

text \<open>
  \<open>validarQR\<close>: the token is looked up with its customer populated; the checks run in
  the order of the source. A valid token returns the customer's id. The state is
  passed through, as for every function that touches the store.
\<close>

definition validarQR :: "fecha \<Rightarrow> string \<Rightarrow> baseDatos \<Rightarrow> (codigoQR + objectId) \<times> baseDatos" where
  "validarQR ahora token s =
     (case qrTokens s token of
        None \<Rightarrow> (Inl QR_NOT_FOUND, s)
      | Some qr \<Rightarrow>
          if estaExpirado ahora qr then (Inl QR_EXPIRED, s)
          else if usado qr then (Inl QR_USED, s)
          else (case usuarios s (clienteId qr) of
                  None \<Rightarrow> (Inl CLIENT_NOT_FOUND, s)
                | Some cliente \<Rightarrow>
                    if \<not> activo cliente then (Inl CLIENT_INACTIVE, s)
                    else (Inr (clienteId qr), s)))"

text \<open>
  \<open>marcarComoUsado\<close>: \<open>findOneAndUpdate({token}, {usado: true, usadoPor}, {new: true})\<close>.
  The filter is the token alone; the updated document is returned, or null when no
  document has that token.
\<close>

definition marcarComoUsado :: "string \<Rightarrow> objectId \<Rightarrow> baseDatos \<Rightarrow> qrToken option \<times> baseDatos" where
  "marcarComoUsado token empresaId s =
     (case qrTokens s token of
        None \<Rightarrow> (None, s)
      | Some qr \<Rightarrow>
          (let qr' = qr\<lparr>usado := True, usadoPor := Some empresaId\<rparr>
           in (Some qr', s\<lparr>qrTokens := (qrTokens s)(token \<mapsto> qr')\<rparr>)))"

text \<open>
  Physical removal of expired tokens: the static \<open>limpiarExpirados\<close>
  (\<open>deleteMany({expiraEn: {$lt: now}})\<close>) and the TTL index
  (\<open>expireAfterSeconds: 60\<close> on \<open>expiraEn\<close>), which the store may run at any time.
\<close>

definition limpiarExpirados :: "fecha \<Rightarrow> baseDatos \<Rightarrow> baseDatos" where
  "limpiarExpirados ahora s =
     s\<lparr>qrTokens := (\<lambda>k. case qrTokens s k of
                              None \<Rightarrow> None
                            | Some qr \<Rightarrow> if expiraEn qr < ahora then None else Some qr)\<rparr>"

definition indiceTTL :: "fecha \<Rightarrow> baseDatos \<Rightarrow> baseDatos" where
  "indiceTTL ahora s =
     s\<lparr>qrTokens := (\<lambda>k. case qrTokens s k of
                              None \<Rightarrow> None
                            | Some qr \<Rightarrow> if expiraEn qr + 60000 \<le> ahora then None else Some qr)\<rparr>"

section \<open>Balances (the update shared by agregarPuntos and cancelar, and the one of canjear)\<close>

text \<open>\<open>Array.prototype.findIndex\<close>, with \<open>None\<close> for \<open>-1\<close>.\<close>

fun findIndex :: "('a \<Rightarrow> bool) \<Rightarrow> 'a list \<Rightarrow> nat option" where
  "findIndex P [] = None"
| "findIndex P (x # xs) = (if P x then Some 0 else map_option Suc (findIndex P xs))"

text \<open>
  \<open>pe => pe.empresa && pe.empresa.toString() === empresaId\<close>: the entry names that
  business.
\<close>

definition esDeEmpresa :: "objectId \<Rightarrow> puntosEmpresa \<Rightarrow> bool" where
  "esDeEmpresa empresaId pe = (pe_empresa pe = Some empresaId)"

text \<open>
  \<open>puntosEnEmpresa\<close> (canjeController.js, lines 97 to 104): the points of the first entry
  of that business, 0 when there is none.
\<close>

definition puntosEnEmpresa :: "objectId \<Rightarrow> usuario \<Rightarrow> doble" where
  "puntosEnEmpresa empresaId u =
     (case findIndex (esDeEmpresa empresaId) (puntosPorEmpresa u) of
        Some i \<Rightarrow> pe_puntos (puntosPorEmpresa u ! i)
      | None \<Rightarrow> 0)"

text \<open>
  The credit of empresaController.js, lines 113 to 137, and of canjeController.js,
  lines 447 to 470: the total grows, and the business's entry grows or is pushed.
\<close>

definition sumarPuntos :: "objectId \<Rightarrow> doble \<Rightarrow> fecha \<Rightarrow> usuario \<Rightarrow> usuario" where
  "sumarPuntos empresaId pts ahora u =
     u\<lparr>puntos := suma (puntos u) pts,
       puntosPorEmpresa :=
         (case findIndex (esDeEmpresa empresaId) (puntosPorEmpresa u) of
            Some i \<Rightarrow>
              (puntosPorEmpresa u)[i := (puntosPorEmpresa u ! i)
                 \<lparr>pe_puntos := suma (pe_puntos (puntosPorEmpresa u ! i)) pts,
                  pe_ultimaTransaccion := ahora\<rparr>]
          | None \<Rightarrow>
              puntosPorEmpresa u @
                [\<lparr>pe_empresa = Some empresaId, pe_puntos = pts, pe_ultimaTransaccion = ahora\<rparr>])\<rparr>"

text \<open>
  The debit of canjeController.js, lines 142 to 153: the total becomes
  \<open>puntosRestantes\<close>; the business's entry, when there is one, loses the points and is
  set to 0 if that left it negative.
\<close>

definition restarPuntos :: "objectId \<Rightarrow> doble \<Rightarrow> usuario \<Rightarrow> usuario" where
  "restarPuntos empresaId pts u =
     u\<lparr>puntos := resta (puntos u) pts,
       puntosPorEmpresa :=
         (case findIndex (esDeEmpresa empresaId) (puntosPorEmpresa u) of
            Some i \<Rightarrow>
              (puntosPorEmpresa u)[i := (puntosPorEmpresa u ! i)
                 \<lparr>pe_puntos :=
                    (if resta (pe_puntos (puntosPorEmpresa u ! i)) pts < 0 then 0
                     else resta (pe_puntos (puntosPorEmpresa u ! i)) pts)\<rparr>]
          | None \<Rightarrow> puntosPorEmpresa u)\<rparr>"


text \<open>
  The sum of the per-business entries, as a number and not as a double, and the
  conservation invariant.
\<close>

definition sumaPorEmpresa :: "usuario \<Rightarrow> rat" where
  "sumaPorEmpresa u = sum_list (map pe_puntos (puntosPorEmpresa u))"

definition conservacion :: "baseDatos \<Rightarrow> bool" where
  "conservacion s = (\<forall>i u. usuarios s i = Some u \<longrightarrow> puntos u = sumaPorEmpresa u)"

section \<open>Storage writes that reject\<close>

text \<open>
  Every controller runs inside \<open>try { ... } catch\<close>, and every \<open>await doc.save()\<close> may
  reject: the store is unreachable, a unique index is violated, or a schema validator
  refuses the document. The \<open>catch\<close> block answers 500 and undoes nothing. The writes
  of one request are numbered from 0 in the order of the source, and the parameter
  \<open>falla\<close> names the write that the store rejects (\<open>None\<close>: it rejects none). A rejection
  that the documents of the request decide (a validator of a new document, a duplicate
  \<open>_id\<close>) is written out; the unique index on \<open>codigoCanje\<close> is left to \<open>falla\<close>. The
  validators of documents that are updated (\<open>Usuario.puntos\<close> min 0, \<open>Recompensa.stock\<close>
  min -1) never refuse the values these requests write to documents that satisfied them,
  and are left out.
\<close>

definition rechaza :: "nat option \<Rightarrow> nat \<Rightarrow> bool" where
  "rechaza falla n = (falla = Some n)"

text \<open>
  Validators of the Transaccion schema: \<open>monto\<close> min 0.01 (the double that the literal
  \<open>0.01\<close> denotes), \<open>puntosOtorgados\<close> min 0.
\<close>

definition transaccionValida :: "transaccion \<Rightarrow> bool" where
  "transaccionValida t = (redondear (1 / 100) \<le> tx_monto t \<and> 0 \<le> tx_puntosOtorgados t)"

text \<open>Validators of the Canje schema: \<open>puntosCanjeados\<close> min 1, \<open>codigoCanje\<close> required.\<close>

definition canjeValido :: "canje \<Rightarrow> bool" where
  "canjeValido c = (1 \<le> puntosCanjeados c \<and> codigoCanje c \<noteq> [])"

section \<open>agregarPuntos (src/controllers/empresaController.js)\<close>

text \<open>
  \<open>empresa.configuracionPuntos || { gastoRequerido: 100, puntosOtorgados: 1 }\<close> and
  \<open>Math.floor(montoNumerico / gastoRequerido) * puntosOtorgados\<close>: the quotient is
  rounded, its floor is exact, the product is rounded. The schema and \<open>configurarPuntos\<close>
  keep \<open>gastoRequerido\<close> at 1 or more, so the division is never by 0.
\<close>

definition configuracionDe :: "usuario \<Rightarrow> configPuntos" where
  "configuracionDe empresa =
     (case configuracionPuntos empresa of
        Some c \<Rightarrow> c
      | None \<Rightarrow> \<lparr>gastoRequerido = 100, puntosOtorgados = 1\<rparr>)"

definition puntosCalculados :: "usuario \<Rightarrow> doble \<Rightarrow> doble" where
  "puntosCalculados empresa m =
     producto (piso (cociente m (gastoRequerido (configuracionDe empresa))))
       (puntosOtorgados (configuracionDe empresa))"

text \<open>\<open>Usuario.findByIdAndUpdate(empresaId, {$inc: {totalTransacciones: 1, totalIngresos: monto}})\<close>.\<close>

definition incrementarEstadisticas :: "objectId \<Rightarrow> doble \<Rightarrow> baseDatos \<Rightarrow> baseDatos" where
  "incrementarEstadisticas empresaId m s =
     (case usuarios s empresaId of
        None \<Rightarrow> s
      | Some e \<Rightarrow>
          s\<lparr>usuarios := (usuarios s)(empresaId \<mapsto>
               e\<lparr>totalTransacciones := suma (totalTransacciones e) 1,
                 totalIngresos := suma (totalIngresos e) m\<rparr>)\<rparr>)"

text \<open>
  Lines 101 to 162, after the QR code has been validated: the four writes, in order
  \<open>cliente.save()\<close> (0), the business's counters (1), \<open>transaccion.save()\<close> (2) and
  \<open>marcarComoUsado\<close> (3). The response is the transaction record.
\<close>

definition otorgarPuntos ::
  "nat option \<Rightarrow> fecha \<Rightarrow> objectId \<Rightarrow> usuario \<Rightarrow> string \<Rightarrow> doble \<Rightarrow> objectId \<Rightarrow> baseDatos
     \<Rightarrow> (error + transaccion) \<times> baseDatos" where
  "otorgarPuntos falla ahora empresaId empresa token m cid s =
     (case usuarios s cid of
        None \<Rightarrow> (Inl ErrorServidor, s)
      | Some cliente \<Rightarrow>
          (let pts = puntosCalculados empresa m;
               cliente' = sumarPuntos empresaId pts ahora cliente;
               tx = \<lparr>tx_cliente = cid, tx_empresa = empresaId, tx_monto = m,
                     tx_puntosOtorgados = pts, tx_puntosAnteriores = puntos cliente,
                     puntosNuevos = puntos cliente', tx_qrToken = token\<rparr>
           in if rechaza falla 0 then (Inl ErrorServidor, s)
              else (let s1 = s\<lparr>usuarios := (usuarios s)(cid \<mapsto> cliente')\<rparr>
                    in if rechaza falla 1 then (Inl ErrorServidor, s1)
                       else (let s2 = incrementarEstadisticas empresaId m s1
                             in if rechaza falla 2 \<or> \<not> transaccionValida tx
                                then (Inl ErrorServidor, s2)
                                else (let s3 = s2\<lparr>transacciones := transacciones s2 @ [tx]\<rparr>
                                      in if rechaza falla 3 then (Inl ErrorServidor, s3)
                                         else (Inr tx, snd (marcarComoUsado token empresaId s3)))))))"

text \<open>
  \<open>agregarPuntos\<close>: \<open>empresaId\<close> and \<open>empresa\<close> are \<open>req.usuario._id\<close> and \<open>req.usuario\<close>;
  the empty token stands for a missing one (\<open>!token\<close>); \<open>monto\<close> is \<open>None\<close> when the body
  has none, else the result of \<open>parseFloat\<close>.
\<close>

definition agregarPuntos ::
  "nat option \<Rightarrow> fecha \<Rightarrow> objectId \<Rightarrow> usuario \<Rightarrow> string \<Rightarrow> numero option \<Rightarrow> baseDatos
     \<Rightarrow> (error + transaccion) \<times> baseDatos" where
  "agregarPuntos falla ahora empresaId empresa token monto s =
     (case monto of
        None \<Rightarrow> (Inl TokenYMontoRequeridos, s)
      | Some montoNumerico \<Rightarrow>
          if token = [] then (Inl TokenYMontoRequeridos, s)
          else (case montoNumerico of
                  NaN \<Rightarrow> (Inl MontoInvalido, s)
                | Num m \<Rightarrow>
                    if m \<le> 0 then (Inl MontoInvalido, s)
                    else (case fst (validarQR ahora token s) of
                            Inl codigo \<Rightarrow> (Inl (QrInvalido codigo), s)
                          | Inr cid \<Rightarrow> otorgarPuntos falla ahora empresaId empresa token m cid s)))"

section \<open>canjear, marcarEntregado, cancelar (src/controllers/canjeController.js)\<close>

text \<open>
  Lines 119 to 162 of \<open>canjear\<close>, after every check has passed: \<open>canje.save()\<close> (0),
  \<open>clienteActualizado.save()\<close> (1) and \<open>recompensa.save()\<close> (2). \<open>canjeId\<close> is the \<open>_id\<close> of
  the new document and \<open>codigo\<close> what \<open>generarCodigoCanje\<close> returned.
\<close>

definition procesarCanje ::
  "nat option \<Rightarrow> objectId \<Rightarrow> string \<Rightarrow> objectId \<Rightarrow> usuario \<Rightarrow> objectId \<Rightarrow> recompensa \<Rightarrow> baseDatos
     \<Rightarrow> (error + canje) \<times> baseDatos" where
  "procesarCanje falla canjeId codigo cid clienteActualizado rid r s =
     (let nuevo = \<lparr>cj_cliente = cid, cj_recompensa = rid, cj_empresa = rec_empresa r,
                    puntosCanjeados = puntosRequeridos r,
                    cj_puntosAnteriores = puntos clienteActualizado,
                    puntosRestantes = resta (puntos clienteActualizado) (puntosRequeridos r),
                    codigoCanje = codigo, estado = Pendiente, fechaEntrega = None\<rparr>
      in if rechaza falla 0 \<or> \<not> canjeValido nuevo \<or> canjes s canjeId \<noteq> None
         then (Inl ErrorServidor, s)
         else (let s1 = s\<lparr>canjes := (canjes s)(canjeId \<mapsto> nuevo)\<rparr>
               in if rechaza falla 1 then (Inl ErrorServidor, s1)
                  else (let s2 = s1\<lparr>usuarios := (usuarios s1)(cid \<mapsto>
                                     restarPuntos (rec_empresa r) (puntosRequeridos r) clienteActualizado)\<rparr>
                        in if rechaza falla 2 then (Inl ErrorServidor, s2)
                           else (Inr nuevo,
                                 s2\<lparr>recompensas := (recompensas s2)(rid \<mapsto>
                                      r\<lparr>stock := (if stock r \<noteq> -1 then resta (stock r) 1 else stock r),
                                        canjesRealizados := suma (canjesRealizados r) 1\<rparr>)\<rparr>))))"

text \<open>
  \<open>canjear\<close>: \<open>cid\<close> is \<open>req.usuario._id\<close>. The checks are those of lines 38 to 117, in
  order. \<open>recompensa.empresa\<close> is populated, so it is null when the business is gone and
  line 90 throws; so does line 77 when the customer is gone.
\<close>

definition canjear ::
  "nat option \<Rightarrow> objectId \<Rightarrow> string \<Rightarrow> objectId \<Rightarrow> objectId option \<Rightarrow> baseDatos
     \<Rightarrow> (error + canje) \<times> baseDatos" where
  "canjear falla canjeId codigo cid recompensaId s =
     (case recompensaId of
        None \<Rightarrow> (Inl IdRecompensaRequerido, s)
      | Some rid \<Rightarrow>
          (case recompensas s rid of
             None \<Rightarrow> (Inl RecompensaNoEncontrada, s)
           | Some r \<Rightarrow>
               if \<not> rec_activo r then (Inl RecompensaNoDisponible, s)
               else if stock r \<noteq> -1 \<and> stock r \<le> 0 then (Inl RecompensaAgotada, s)
               else (case usuarios s cid of
                       None \<Rightarrow> (Inl ErrorServidor, s)
                     | Some clienteActualizado \<Rightarrow>
                         if puntos clienteActualizado < puntosRequeridos r
                         then (Inl (PuntosInsuficientes (puntos clienteActualizado) (puntosRequeridos r)
                                      (resta (puntosRequeridos r) (puntos clienteActualizado))), s)
                         else (case usuarios s (rec_empresa r) of
                                 None \<Rightarrow> (Inl ErrorServidor, s)
                               | Some empresa \<Rightarrow>
                                   if puntosEnEmpresa (rec_empresa r) clienteActualizado < puntosRequeridos r
                                   then (Inl (PuntosInsuficientesEmpresa
                                                (puntosEnEmpresa (rec_empresa r) clienteActualizado)
                                                (puntosRequeridos r)
                                                (resta (puntosRequeridos r)
                                                   (puntosEnEmpresa (rec_empresa r) clienteActualizado))), s)
                                   else procesarCanje falla canjeId codigo cid clienteActualizado rid r s))))"

text \<open>
  \<open>marcarEntregado\<close>: \<open>Canje.findOne({_id, empresa})\<close>, the two terminal states refused,
  then one write, \<open>canje.save()\<close> (0).
\<close>

definition marcarEntregado ::
  "nat option \<Rightarrow> fecha \<Rightarrow> objectId \<Rightarrow> objectId \<Rightarrow> baseDatos \<Rightarrow> (error + canje) \<times> baseDatos" where
  "marcarEntregado falla ahora empresaId canjeId s =
     (case canjes s canjeId of
        None \<Rightarrow> (Inl CanjeNoEncontrado, s)
      | Some c \<Rightarrow>
          if cj_empresa c \<noteq> empresaId then (Inl CanjeNoEncontrado, s)
          else if estado c = Entregado then (Inl CanjeYaEntregado, s)
          else if estado c = Cancelado then (Inl CanjeCancelado, s)
          else if rechaza falla 0 then (Inl ErrorServidor, s)
          else (Inr (c\<lparr>estado := Entregado, fechaEntrega := Some ahora\<rparr>),
                s\<lparr>canjes := (canjes s)(canjeId \<mapsto> c\<lparr>estado := Entregado, fechaEntrega := Some ahora\<rparr>)\<rparr>))"

text \<open>
  Lines 474 to 482 of \<open>cancelar\<close>: the reward, when it still exists, gets its stock back
  (unless unlimited) and its counter lowered, not below 0.
\<close>

definition restaurarRecompensa :: "recompensa \<Rightarrow> recompensa" where
  "restaurarRecompensa r =
     r\<lparr>stock := (if stock r \<noteq> -1 then suma (stock r) 1 else stock r),
       canjesRealizados := max 0 (resta (canjesRealizados r) 1)\<rparr>"

text \<open>
  \<open>cancelar\<close>: \<open>Canje.findOne({_id, empresa, estado: 'pendiente'})\<close>, then
  \<open>cliente.save()\<close> (0), \<open>recompensa.save()\<close> (1, only when the reward exists) and
  \<open>canje.save()\<close> (2). The response is \<open>puntosDevueltos\<close>.
\<close>

definition cancelar ::
  "nat option \<Rightarrow> fecha \<Rightarrow> objectId \<Rightarrow> objectId \<Rightarrow> baseDatos \<Rightarrow> (error + doble) \<times> baseDatos" where
  "cancelar falla ahora empresaId canjeId s =
     (case canjes s canjeId of
        None \<Rightarrow> (Inl CanjeNoCancelable, s)
      | Some c \<Rightarrow>
          if cj_empresa c \<noteq> empresaId \<or> estado c \<noteq> Pendiente then (Inl CanjeNoCancelable, s)
          else (case usuarios s (cj_cliente c) of
                  None \<Rightarrow> (Inl ErrorServidor, s)
                | Some cliente \<Rightarrow>
                    if rechaza falla 0 then (Inl ErrorServidor, s)
                    else (let s1 = s\<lparr>usuarios := (usuarios s)(cj_cliente c \<mapsto>
                                       sumarPuntos (cj_empresa c) (puntosCanjeados c) ahora cliente)\<rparr>
                          in if recompensas s1 (cj_recompensa c) \<noteq> None \<and> rechaza falla 1
                             then (Inl ErrorServidor, s1)
                             else (let s2 = (case recompensas s1 (cj_recompensa c) of
                                               None \<Rightarrow> s1
                                             | Some r \<Rightarrow>
                                                 s1\<lparr>recompensas := (recompensas s1)
                                                      (cj_recompensa c \<mapsto> restaurarRecompensa r)\<rparr>)
                                   in if rechaza falla 2 then (Inl ErrorServidor, s2)
                                      else (Inr (puntosCanjeados c),
                                            s2\<lparr>canjes := (canjes s2)(canjeId \<mapsto> c\<lparr>estado := Cancelado\<rparr>)\<rparr>)))))"

section \<open>Sequences of requests\<close>

text \<open>One request to the ledger, with everything the environment decides for it.\<close>

datatype operacion =
    AgregarPuntos "nat option" fecha objectId usuario string "numero option"
  | Canjear "nat option" objectId string objectId "objectId option"
  | MarcarEntregado "nat option" fecha objectId objectId
  | Cancelar "nat option" fecha objectId objectId

text \<open>A request either fails with an error or succeeds; in both cases it leaves a state.\<close>

fun ejecutar :: "operacion \<Rightarrow> baseDatos \<Rightarrow> error option \<times> baseDatos" where
  "ejecutar (AgregarPuntos falla ahora empresaId empresa token monto) s =
     (case agregarPuntos falla ahora empresaId empresa token monto s of
        (Inl e, s') \<Rightarrow> (Some e, s') | (Inr _, s') \<Rightarrow> (None, s'))"
| "ejecutar (Canjear falla canjeId codigo cid recompensaId) s =
     (case canjear falla canjeId codigo cid recompensaId s of
        (Inl e, s') \<Rightarrow> (Some e, s') | (Inr _, s') \<Rightarrow> (None, s'))"
| "ejecutar (MarcarEntregado falla ahora empresaId canjeId) s =
     (case marcarEntregado falla ahora empresaId canjeId s of
        (Inl e, s') \<Rightarrow> (Some e, s') | (Inr _, s') \<Rightarrow> (None, s'))"
| "ejecutar (Cancelar falla ahora empresaId canjeId) s =
     (case cancelar falla ahora empresaId canjeId s of
        (Inl e, s') \<Rightarrow> (Some e, s') | (Inr _, s') \<Rightarrow> (None, s'))"

text \<open>A sequence of requests that all succeed: \<open>None\<close> as soon as one fails.\<close>

fun exitosas :: "operacion list \<Rightarrow> baseDatos \<Rightarrow> baseDatos option" where
  "exitosas [] s = Some s"
| "exitosas (op # ops) s =
     (case ejecutar op s of
        (None, s') \<Rightarrow> exitosas ops s'
      | (Some e, s') \<Rightarrow> None)"

text \<open>
  The counter \<open>canjesRealizados\<close> has no validator; it starts at 0, canjear adds 1 and
  cancelar subtracts 1 with a floor at 0.
\<close>

definition contadoresNoNegativos :: "baseDatos \<Rightarrow> bool" where
  "contadoresNoNegativos s = (\<forall>i r. recompensas s i = Some r \<longrightarrow> 0 \<le> canjesRealizados r)"

section \<open>Requests whose point arithmetic does not round\<close>

text \<open>
  No schema and no controller requires a number of points to be an integer:
  \<open>crear\<close> and \<open>actualizar\<close> of recompensaController.js accept any \<open>puntosRequeridos\<close> of
  1 or more, 1.2 for one. The states in which every number of points that a request
  adds or subtracts is an integer of magnitude below \<open>2^52\<close>: the totals and the
  per-business entries of the users, the prices of the rewards, the amounts of the
  redemptions.
\<close>

definition usuarioEntero :: "usuario \<Rightarrow> bool" where
  "usuarioEntero u =
     (entero (puntos u) \<and> list_all (\<lambda>pe. entero (pe_puntos pe)) (puntosPorEmpresa u))"

definition enteros :: "baseDatos \<Rightarrow> bool" where
  "enteros s =
     ((\<forall>i u. usuarios s i = Some u \<longrightarrow> usuarioEntero u) \<and>
      (\<forall>i r. recompensas s i = Some r \<longrightarrow> entero (puntosRequeridos r)) \<and>
      (\<forall>i c. canjes s i = Some c \<longrightarrow> entero (puntosCanjeados c)))"

text \<open>The points that a credit computes are such an integer.\<close>

fun creditoEntero :: "operacion \<Rightarrow> bool" where
  "creditoEntero (AgregarPuntos falla ahora empresaId empresa token (Some (Num m))) =
     entero (puntosCalculados empresa m)"
| "creditoEntero opn = True"

text \<open>
  A sequence of requests each of which finds such a state, and computes such a credit
  if it is a credit.
\<close>

fun exactas :: "operacion list \<Rightarrow> baseDatos \<Rightarrow> bool" where
  "exactas [] s = True"
| "exactas (opn # ops) s =
     (enteros s \<and> creditoEntero opn \<and> exactas ops (snd (ejecutar opn s)))"

section \<open>A sample database\<close>

text \<open>
  A customer (id 11) with 50 points, 5 of them at business 22 and 45 at business 33, and
  an inactive copy of it (id 12); business 22 with the formula 1 point per 100 pesos;
  three rewards of business 22 that require 2, 10 and 60 points; a delivered and a
  pending redemption; QR tokens: \<open>qr-1\<close> fresh, \<open>qr-2\<close> expired and used, \<open>qr-3\<close> used,
  \<open>qr-4\<close> of a customer that no longer exists, \<open>qr-5\<close> of the inactive customer.
\<close>

definition clienteEjemplo :: usuario where
  "clienteEjemplo =
     \<lparr>activo = True, puntos = 50,
      puntosPorEmpresa =
        [\<lparr>pe_empresa = Some 22, pe_puntos = 5, pe_ultimaTransaccion = 0\<rparr>,
         \<lparr>pe_empresa = Some 33, pe_puntos = 45, pe_ultimaTransaccion = 0\<rparr>],
      totalTransacciones = 0, totalIngresos = 0, configuracionPuntos = None\<rparr>"

definition empresaEjemplo :: usuario where
  "empresaEjemplo =
     \<lparr>activo = True, puntos = 0, puntosPorEmpresa = [],
      totalTransacciones = 0, totalIngresos = 0,
      configuracionPuntos = Some \<lparr>gastoRequerido = 100, puntosOtorgados = 1\<rparr>\<rparr>"

definition recompensaEjemplo :: "doble \<Rightarrow> recompensa" where
  "recompensaEjemplo requeridos =
     \<lparr>rec_empresa = 22, puntosRequeridos = requeridos, stock = 5, rec_activo = True,
      canjesRealizados = 2\<rparr>"

definition canjeEjemplo :: "estadoCanje \<Rightarrow> canje" where
  "canjeEjemplo e =
     \<lparr>cj_cliente = 11, cj_recompensa = 101, cj_empresa = 22, puntosCanjeados = 2,
      cj_puntosAnteriores = 52, puntosRestantes = 50, codigoCanje = ''CJ-0000000A'',
      estado = e, fechaEntrega = None\<rparr>"

definition tokenEjemplo :: qrToken where
  "tokenEjemplo = \<lparr>clienteId = 11, expiraEn = 30000, usado = False, usadoPor = None\<rparr>"

definition tokenViejo :: qrToken where
  "tokenViejo = \<lparr>clienteId = 11, expiraEn = 500, usado = True, usadoPor = Some 22\<rparr>"

definition tokenUsado :: qrToken where
  "tokenUsado = \<lparr>clienteId = 11, expiraEn = 30000, usado = True, usadoPor = Some 22\<rparr>"

definition tokenDe :: "objectId \<Rightarrow> qrToken" where
  "tokenDe cid = \<lparr>clienteId = cid, expiraEn = 30000, usado = False, usadoPor = None\<rparr>"

definition bdEjemplo :: baseDatos where
  "bdEjemplo =
     \<lparr>usuarios = [11 \<mapsto> clienteEjemplo, 12 \<mapsto> clienteEjemplo\<lparr>activo := False\<rparr>,
                  22 \<mapsto> empresaEjemplo],
      recompensas = [101 \<mapsto> recompensaEjemplo 2, 102 \<mapsto> recompensaEjemplo 10,
                     103 \<mapsto> recompensaEjemplo 60],
      canjes = [7 \<mapsto> canjeEjemplo Entregado, 8 \<mapsto> canjeEjemplo Pendiente],
      qrTokens = [''qr-1'' \<mapsto> tokenEjemplo, ''qr-2'' \<mapsto> tokenViejo, ''qr-3'' \<mapsto> tokenUsado,
                  ''qr-4'' \<mapsto> tokenDe 99, ''qr-5'' \<mapsto> tokenDe 12],
      transacciones = []\<rparr>"

definition operacionesEjemplo :: "operacion list" where
  "operacionesEjemplo =
     [AgregarPuntos None 1000 22 empresaEjemplo ''qr-1'' (Some (Num 250)),
      Canjear None 9 ''CJ-A1B2C3D4'' 11 (Some 101),
      Cancelar None 2000 22 9,
      MarcarEntregado None 3000 22 8]"

text \<open>
  The same database with a fourth reward of business 22 (id 104) whose price is 1.2
  points, which \<open>crear\<close> accepts; the two redemptions of it by customer 11, and the state
  after them. Then a customer (id 13) with 48.9 points, 3.9 of them at business 22, and
  the states after that customer has redeemed the reward and after the business has
  cancelled the redemption. A decimal literal of the source denotes the nearest double:
  \<open>redondear (6 / 5)\<close> is the number \<open>1.2\<close> of JavaScript.
\<close>

definition bdPrecio :: baseDatos where
  "bdPrecio =
     bdEjemplo\<lparr>recompensas := (recompensas bdEjemplo)(104 \<mapsto> recompensaEjemplo (redondear (6 / 5)))\<rparr>"

definition canjesDecimales :: "operacion list" where
  "canjesDecimales =
     [Canjear None 9 ''CJ-A1B2C3D4'' 11 (Some 104),
      Canjear None 10 ''CJ-E5F6A7B8'' 11 (Some 104)]"

definition bdTrasCanjes :: baseDatos where
  "bdTrasCanjes =
     snd (canjear None 10 ''CJ-E5F6A7B8'' 11 (Some 104)
            (snd (canjear None 9 ''CJ-A1B2C3D4'' 11 (Some 104) bdPrecio)))"

definition clienteDecimal :: usuario where
  "clienteDecimal =
     \<lparr>activo = True, puntos = redondear (489 / 10),
      puntosPorEmpresa =
        [\<lparr>pe_empresa = Some 22, pe_puntos = redondear (39 / 10), pe_ultimaTransaccion = 0\<rparr>,
         \<lparr>pe_empresa = Some 33, pe_puntos = 45, pe_ultimaTransaccion = 0\<rparr>],
      totalTransacciones = 0, totalIngresos = 0, configuracionPuntos = None\<rparr>"

definition bdDecimal :: baseDatos where
  "bdDecimal = bdPrecio\<lparr>usuarios := (usuarios bdPrecio)(13 \<mapsto> clienteDecimal)\<rparr>"

definition bdCanjeDecimal :: baseDatos where
  "bdCanjeDecimal = snd (canjear None 9 ''CJ-A1B2C3D4'' 13 (Some 104) bdDecimal)"

definition bdCanceladoDecimal :: baseDatos where
  "bdCanceladoDecimal = snd (cancelar None 600 22 9 bdCanjeDecimal)"

section \<open>Auxiliary facts\<close>

subsection \<open>Evaluation of the arithmetic on numerals\<close>

lemma floor_rat_numeral: "\<lfloor>numeral a / numeral b :: rat\<rfloor> = numeral a div numeral b"
  using floor_divide_of_int_eq[of "numeral a" "numeral b", where ?'a = rat] by simp

lemma floor_rat_one: "\<lfloor>1 / numeral b :: rat\<rfloor> = 1 div numeral b"
  using floor_divide_of_int_eq[of 1 "numeral b", where ?'a = rat] by simp

lemma ceiling_rat_numeral: "\<lceil>numeral a / numeral b :: rat\<rceil> = - ((- numeral a) div numeral b)"
  using ceiling_divide_eq_div[of "numeral a" "numeral b", where ?'a = rat] by simp

lemmas doble_eval = redondear_def exponente_def redondeoPar_def dosA_def longitudBits.simps
  floor_rat_numeral floor_rat_one ceiling_rat_numeral suma_def resta_def producto_def
  cociente_def piso_def

subsection \<open>Rounding\<close>

text \<open>
  Rounding keeps the sign, and leaves an integer of magnitude below \<open>2^53\<close> as it is; so
  the sum and the difference of two integers of magnitude below \<open>2^52\<close> are exact.
\<close>

lemma dosA_pos: "0 < dosA e"
  by (simp add: dosA_def)

lemma dosA_no_positivo: "d \<le> 0 \<Longrightarrow> dosA d = 1 / 2 ^ nat (- d)"
  by (cases "d = 0") (simp_all add: dosA_def)

lemma redondeoPar_of_int: "redondeoPar (of_int n) = n"
  by (simp add: redondeoPar_def)

lemma redondeoPar_nonneg: "0 \<le> y \<Longrightarrow> 0 \<le> redondeoPar y"
  by (simp add: redondeoPar_def)

lemma redondear_nonneg: "0 \<le> x \<Longrightarrow> 0 \<le> redondear x"
proof -
  assume x: "0 \<le> x"
  have "0 \<le> x / dosA (exponente x - 52)"
    using x dosA_pos[of "exponente x - 52"] by simp
  hence "0 \<le> redondeoPar (x / dosA (exponente x - 52))"
    by (rule redondeoPar_nonneg)
  thus ?thesis
    using dosA_pos[of "exponente x - 52"] by (simp add: redondear_def)
qed

lemma longitudBits_le: "n < 2 ^ k \<Longrightarrow> longitudBits n \<le> k"
proof (induction k arbitrary: n)
  case 0
  thus ?case by (simp add: longitudBits.simps)
next
  case (Suc k)
  show ?case
  proof (cases "n = 0")
    case True
    thus ?thesis by (simp add: longitudBits.simps)
  next
    case False
    from Suc.prems have "n div 2 < 2 ^ k" by simp
    hence "longitudBits (n div 2) \<le> k" by (rule Suc.IH)
    with False show ?thesis by (subst longitudBits.simps) simp
  qed
qed

lemma redondear_multiplo:
  assumes d: "d \<le> 0" and x: "of_int \<lfloor>x\<rfloor> = x"
  shows "of_int (redondeoPar (x / dosA d)) * dosA d = x"
proof -
  obtain n where n: "x = of_int n"
    using x by metis
  have "x / dosA d = of_int (n * 2 ^ nat (- d))"
    by (simp add: n dosA_no_positivo[OF d])
  hence "redondeoPar (x / dosA d) = n * 2 ^ nat (- d)"
    by (simp only: redondeoPar_of_int)
  thus ?thesis
    by (simp add: n dosA_no_positivo[OF d])
qed

lemma exponente_entero:
  assumes x: "of_int \<lfloor>x\<rfloor> = x" and m: "\<bar>x\<bar> < 2 ^ 53"
  shows "exponente x - 52 \<le> 0"
proof -
  have "\<lfloor>\<bar>x\<bar>\<rfloor> < 2 ^ 53"
    using m by (simp add: floor_less_iff)
  hence "nat \<lfloor>\<bar>x\<bar>\<rfloor> < 2 ^ 53"
    by (simp add: nat_less_iff)
  hence "longitudBits (nat \<lfloor>\<bar>x\<bar>\<rfloor>) \<le> 53"
    by (rule longitudBits_le)
  thus ?thesis
    by (simp add: exponente_def)
qed

lemma redondear_entero:
  assumes x: "of_int \<lfloor>x\<rfloor> = x" and m: "\<bar>x\<bar> < 2 ^ 53"
  shows "redondear x = x"
  using redondear_multiplo[OF exponente_entero[OF x m] x]
  by (simp add: redondear_def)

lemma entero_mas:
  assumes a: "entero a" and b: "entero b"
  shows "of_int \<lfloor>a + b\<rfloor> = a + b \<and> \<bar>a + b\<bar> < 2 ^ 53"
proof -
  obtain m where m: "a = of_int m"
    using a unfolding entero_def by metis
  obtain n where n: "b = of_int n"
    using b unfolding entero_def by metis
  have "a + b = of_int (m + n)"
    by (simp add: m n)
  hence "of_int \<lfloor>a + b\<rfloor> = a + b"
    by (simp only: floor_of_int)
  moreover have "\<bar>a\<bar> < 2 ^ 52" "\<bar>b\<bar> < 2 ^ 52"
    using a b unfolding entero_def by blast+
  hence "\<bar>a + b\<bar> < 2 ^ 53"
    by simp
  ultimately show ?thesis by blast
qed

lemma entero_menos: "entero b \<Longrightarrow> entero (- b)"
  by (metis abs_minus_cancel entero_def floor_of_int of_int_minus)

lemma suma_entero: "entero a \<Longrightarrow> entero b \<Longrightarrow> suma a b = a + b"
  using entero_mas[of a b] by (simp add: suma_def redondear_entero)

lemma resta_entero: "entero a \<Longrightarrow> entero b \<Longrightarrow> resta a b = a - b"
  using entero_mas[of a "- b"] by (simp add: resta_def redondear_entero entero_menos)

lemma resta_nonneg: "b \<le> a \<Longrightarrow> 0 \<le> resta a b"
  by (simp add: resta_def redondear_nonneg)

lemma entero_numeros: "entero 0" "entero 1" "entero (- 1)"
  by (simp_all add: entero_def)

lemma suma_nonneg: "0 \<le> a \<Longrightarrow> 0 \<le> b \<Longrightarrow> 0 \<le> suma a b"
  by (simp add: suma_def redondear_nonneg)

lemma producto_nonneg: "0 \<le> a \<Longrightarrow> 0 \<le> b \<Longrightarrow> 0 \<le> producto a b"
  by (simp add: producto_def redondear_nonneg)

lemma cociente_nonneg: "0 \<le> a \<Longrightarrow> 0 \<le> b \<Longrightarrow> 0 \<le> cociente a b"
  by (simp add: cociente_def redondear_nonneg)

lemma entero_diferencia:
  assumes a: "entero a" and b: "entero b" and le: "b \<le> a" and nn: "0 \<le> b"
  shows "entero (a - b)"
proof -
  obtain m where m: "a = of_int m"
    using a unfolding entero_def by metis
  obtain n where n: "b = of_int n"
    using b unfolding entero_def by metis
  have "a - b = of_int (m - n)"
    by (simp add: m n)
  hence "of_int \<lfloor>a - b\<rfloor> = a - b"
    by (simp only: floor_of_int)
  moreover have "\<bar>a\<bar> < 2 ^ 52"
    using a unfolding entero_def by blast
  hence "\<bar>a - b\<bar> < 2 ^ 52"
    using le nn by simp
  ultimately show ?thesis
    unfolding entero_def by blast
qed

subsection \<open>Evaluation on the sample database\<close>

lemmas ejemplo_defs = tokenViejo_def tokenUsado_def tokenDe_def bdEjemplo_def clienteEjemplo_def empresaEjemplo_def recompensaEjemplo_def
  canjeEjemplo_def tokenEjemplo_def

lemmas evaluar = agregarPuntos_def otorgarPuntos_def validarQR_def estaExpirado_def
  marcarComoUsado_def incrementarEstadisticas_def puntosCalculados_def configuracionDe_def
  transaccionValida_def canjeValido_def rechaza_def sumarPuntos_def restarPuntos_def
  puntosEnEmpresa_def esDeEmpresa_def canjear_def procesarCanje_def marcarEntregado_def
  cancelar_def restaurarRecompensa_def Let_def doble_eval

lemma ejemplo_valores:
  "usuarios bdEjemplo 11 = Some clienteEjemplo"
  "usuarios bdEjemplo 22 = Some empresaEjemplo"
  "recompensas bdEjemplo 101 = Some (recompensaEjemplo 2)"
  "recompensas bdEjemplo 102 = Some (recompensaEjemplo 10)"
  "recompensas bdEjemplo 103 = Some (recompensaEjemplo 60)"
  "canjes bdEjemplo 7 = Some (canjeEjemplo Entregado)"
  "canjes bdEjemplo 8 = Some (canjeEjemplo Pendiente)"
  "qrTokens bdEjemplo ''qr-1'' = Some tokenEjemplo"
  "qrTokens bdEjemplo ''qr-2'' = Some tokenViejo"
  "qrTokens bdEjemplo ''qr-0'' = None"
  "qrTokens bdEjemplo ''qr-3'' = Some tokenUsado"
  "qrTokens bdEjemplo ''qr-4'' = Some (tokenDe 99)"
  "qrTokens bdEjemplo ''qr-5'' = Some (tokenDe 12)"
  "usuarios bdEjemplo 12 = Some (clienteEjemplo\<lparr>activo := False\<rparr>)"
  "usuarios bdEjemplo 99 = None"
  "canjes bdEjemplo 9 = None"
  "expiraEn tokenUsado = 30000" "usado tokenUsado"
  "expiraEn (tokenDe c) = 30000" "\<not> usado (tokenDe c)" "clienteId (tokenDe c) = c"
  "rec_empresa (recompensaEjemplo n) = 22"
  "puntosRequeridos (recompensaEjemplo n) = n"
  "rec_activo (recompensaEjemplo n)"
  "stock (recompensaEjemplo n) = 5"
  "canjesRealizados (recompensaEjemplo n) = 2"
  "puntos clienteEjemplo = 50"
  "activo clienteEjemplo"
  "puntosEnEmpresa 22 clienteEjemplo = 5"
  "puntosPorEmpresa clienteEjemplo =
     [\<lparr>pe_empresa = Some 22, pe_puntos = 5, pe_ultimaTransaccion = 0\<rparr>,
      \<lparr>pe_empresa = Some 33, pe_puntos = 45, pe_ultimaTransaccion = 0\<rparr>]"
  "cj_empresa (canjeEjemplo e) = 22"
  "estado (canjeEjemplo e) = e"
  "expiraEn tokenEjemplo = 30000" "\<not> usado tokenEjemplo" "clienteId tokenEjemplo = 11"
  "expiraEn tokenViejo = 500" "usado tokenViejo"
  by (simp_all add: ejemplo_defs puntosEnEmpresa_def esDeEmpresa_def)

subsection \<open>findIndex and sums over updated lists\<close>

lemma findIndex_Some: "findIndex P xs = Some i \<Longrightarrow> i < length xs \<and> P (xs ! i)"
proof (induction xs arbitrary: i)
  case Nil
  then show ?case by simp
next
  case (Cons x xs)
  then show ?case by (auto split: if_splits)
qed

lemma findIndex_cong_map: "map P xs = map P ys \<Longrightarrow> findIndex P xs = findIndex P ys"
proof (induction xs arbitrary: ys)
  case Nil
  then show ?case by simp
next
  case (Cons x xs)
  then obtain y ys' where "ys = y # ys'" by (cases ys) auto
  with Cons show ?case by auto
qed

lemma findIndex_update:
  "i < length xs \<Longrightarrow> P y = P (xs ! i) \<Longrightarrow> findIndex P (xs[i := y]) = findIndex P xs"
  by (rule findIndex_cong_map) (simp add: map_update list_update_same_conv)

lemma findIndex_append_None:
  "findIndex P xs = None \<Longrightarrow> P y \<Longrightarrow> findIndex P (xs @ [y]) = Some (length xs)"
  by (induction xs) (auto split: if_splits)

lemma findIndex_update_puntos:
  assumes "findIndex (esDeEmpresa e) xs = Some i"
  shows "findIndex (esDeEmpresa e) (xs[i := (xs ! i)\<lparr>pe_puntos := v, pe_ultimaTransaccion := a\<rparr>]) = Some i"
    and "findIndex (esDeEmpresa e) (xs[i := (xs ! i)\<lparr>pe_puntos := v\<rparr>]) = Some i"
  using assms findIndex_Some[OF assms] by (simp_all add: findIndex_update esDeEmpresa_def)

lemma sum_list_map_update:
  fixes f :: "'a \<Rightarrow> rat"
  shows "i < length xs \<Longrightarrow> sum_list (map f (xs[i := y])) = sum_list (map f xs) - f (xs ! i) + f y"
proof (induction xs arbitrary: i)
  case Nil
  then show ?case by simp
next
  case (Cons x xs)
  then show ?case by (cases i) auto
qed

subsection \<open>The credit and the debit of one customer document\<close>

lemma sumarPuntos_puntos: "puntos (sumarPuntos e p a u) = suma (puntos u) p"
  by (simp add: sumarPuntos_def)

lemma usuarioEntero_entrada:
  "usuarioEntero u \<Longrightarrow> i < length (puntosPorEmpresa u) \<Longrightarrow> entero (pe_puntos (puntosPorEmpresa u ! i))"
  by (simp add: usuarioEntero_def list_all_length)

lemma sumarPuntos_suma:
  assumes "usuarioEntero u" and "entero p"
  shows "sumaPorEmpresa (sumarPuntos e p a u) = sumaPorEmpresa u + p"
proof (cases "findIndex (esDeEmpresa e) (puntosPorEmpresa u)")
  case None
  then show ?thesis
    by (simp add: sumarPuntos_def sumaPorEmpresa_def)
next
  case (Some i)
  note i = findIndex_Some[OF Some]
  from assms i have "suma (pe_puntos (puntosPorEmpresa u ! i)) p = pe_puntos (puntosPorEmpresa u ! i) + p"
    by (simp add: suma_entero usuarioEntero_entrada)
  with Some i show ?thesis
    by (simp add: sumarPuntos_def sumaPorEmpresa_def sum_list_map_update)
qed

lemma sumarPuntos_enEmpresa:
  assumes "entero (puntosEnEmpresa e u)" and "entero p"
  shows "puntosEnEmpresa e (sumarPuntos e p a u) = puntosEnEmpresa e u + p"
proof (cases "findIndex (esDeEmpresa e) (puntosPorEmpresa u)")
  case None
  then show ?thesis
    by (simp add: sumarPuntos_def puntosEnEmpresa_def findIndex_append_None esDeEmpresa_def)
next
  case (Some i)
  with assms have "suma (pe_puntos (puntosPorEmpresa u ! i)) p = pe_puntos (puntosPorEmpresa u ! i) + p"
    by (simp add: suma_entero puntosEnEmpresa_def)
  with Some findIndex_Some[OF Some] show ?thesis
    by (simp add: sumarPuntos_def puntosEnEmpresa_def findIndex_update_puntos)
qed

lemma sumarPuntos_enEmpresa_doble:
  "puntosEnEmpresa e (sumarPuntos e p a u)
     = (if findIndex (esDeEmpresa e) (puntosPorEmpresa u) = None then p
        else suma (puntosEnEmpresa e u) p)"
proof (cases "findIndex (esDeEmpresa e) (puntosPorEmpresa u)")
  case None
  then show ?thesis
    by (simp add: sumarPuntos_def puntosEnEmpresa_def findIndex_append_None esDeEmpresa_def)
next
  case (Some i)
  with findIndex_Some[OF Some] show ?thesis
    by (simp add: sumarPuntos_def puntosEnEmpresa_def findIndex_update_puntos)
qed

lemma restarPuntos_puntos: "puntos (restarPuntos e p u) = resta (puntos u) p"
  by (simp add: restarPuntos_def)


lemma restarPuntos_enEmpresa:
  assumes "p \<le> puntosEnEmpresa e u" and "1 \<le> p"
  shows "puntosEnEmpresa e (restarPuntos e p u) = resta (puntosEnEmpresa e u) p"
proof (cases "findIndex (esDeEmpresa e) (puntosPorEmpresa u)")
  case None
  with assms show ?thesis by (simp add: puntosEnEmpresa_def)
next
  case (Some i)
  with assms findIndex_Some[OF Some] resta_nonneg[OF assms(1)] show ?thesis
    by (simp add: restarPuntos_def puntosEnEmpresa_def findIndex_update_puntos)
qed

lemma restarPuntos_suma:
  assumes "usuarioEntero u" and "entero p" and "p \<le> puntosEnEmpresa e u" and "1 \<le> p"
  shows "sumaPorEmpresa (restarPuntos e p u) = sumaPorEmpresa u - p"
proof (cases "findIndex (esDeEmpresa e) (puntosPorEmpresa u)")
  case None
  with assms show ?thesis by (simp add: puntosEnEmpresa_def)
next
  case (Some i)
  note i = findIndex_Some[OF Some]
  from assms i have "resta (pe_puntos (puntosPorEmpresa u ! i)) p = pe_puntos (puntosPorEmpresa u ! i) - p"
    by (simp add: resta_entero usuarioEntero_entrada)
  moreover from assms(3) Some have "p \<le> pe_puntos (puntosPorEmpresa u ! i)"
    by (simp add: puntosEnEmpresa_def)
  ultimately show ?thesis
    using Some i by (simp add: restarPuntos_def sumaPorEmpresa_def sum_list_map_update)
qed

lemma puntosEnEmpresa_estadisticas:
  "puntosEnEmpresa e (u\<lparr>totalTransacciones := x, totalIngresos := y\<rparr>) = puntosEnEmpresa e u"
  by (simp add: puntosEnEmpresa_def split: option.splits)

subsection \<open>What a successful canjear has checked and written\<close>

lemma procesarCanje_exito:
  assumes "procesarCanje falla k cod cid u rid r s = (Inr c, s1)"
  shows "1 \<le> puntosRequeridos r" and "canjes s k = None"
    and "c = \<lparr>cj_cliente = cid, cj_recompensa = rid, cj_empresa = rec_empresa r,
               puntosCanjeados = puntosRequeridos r, cj_puntosAnteriores = puntos u,
               puntosRestantes = resta (puntos u) (puntosRequeridos r),
               codigoCanje = cod, estado = Pendiente, fechaEntrega = None\<rparr>"
    and "s1 = s\<lparr>canjes := (canjes s)(k \<mapsto> c),
                 usuarios := (usuarios s)(cid \<mapsto> restarPuntos (rec_empresa r) (puntosRequeridos r) u),
                 recompensas := (recompensas s)(rid \<mapsto>
                    r\<lparr>stock := (if stock r \<noteq> -1 then resta (stock r) 1 else stock r),
                      canjesRealizados := suma (canjesRealizados r) 1\<rparr>)\<rparr>"
  using assms
  by (auto simp: procesarCanje_def Let_def canjeValido_def split: if_splits)

lemma canjear_exito:
  assumes "canjear falla k cod cid (Some rid) s = (Inr c, s1)"
    and "usuarios s cid = Some u" and "recompensas s rid = Some r"
  shows "rec_activo r" and "stock r = -1 \<or> 0 < stock r"
    and "puntosRequeridos r \<le> puntos u"
    and "puntosRequeridos r \<le> puntosEnEmpresa (rec_empresa r) u"
    and "procesarCanje falla k cod cid u rid r s = (Inr c, s1)"
  using assms
  by (auto simp: canjear_def split: if_splits option.splits)

lemma canjear_ejemplo_fst:
  "fst (canjear None 9 ''CJ-A1B2C3D4'' 11 (Some 101) bdEjemplo)
     = Inr \<lparr>cj_cliente = 11, cj_recompensa = 101, cj_empresa = 22, puntosCanjeados = 2,
             cj_puntosAnteriores = 50, puntosRestantes = 48, codigoCanje = ''CJ-A1B2C3D4'',
             estado = Pendiente, fechaEntrega = None\<rparr>"
  by (simp add: ejemplo_defs evaluar)

lemma canjear_ejemplo:
  "canjear None 9 ''CJ-A1B2C3D4'' 11 (Some 101) bdEjemplo
     = (Inr \<lparr>cj_cliente = 11, cj_recompensa = 101, cj_empresa = 22, puntosCanjeados = 2,
              cj_puntosAnteriores = 50, puntosRestantes = 48, codigoCanje = ''CJ-A1B2C3D4'',
              estado = Pendiente, fechaEntrega = None\<rparr>,
        snd (canjear None 9 ''CJ-A1B2C3D4'' 11 (Some 101) bdEjemplo))"
  using canjear_ejemplo_fst by (simp add: prod_eq_iff)

subsection \<open>The state component of each request\<close>

lemma validarQR_estado: "snd (validarQR ahora tok s) = s"
  by (simp add: validarQR_def split: option.splits)

lemma marcarComoUsado_usuarios: "usuarios (snd (marcarComoUsado t e s)) = usuarios s"
  by (simp add: marcarComoUsado_def Let_def split: option.splits)

lemma snd_ejecutar:
  "snd (ejecutar op s) =
     (case op of
        AgregarPuntos f a e emp tok mo \<Rightarrow> snd (agregarPuntos f a e emp tok mo s)
      | Canjear f k cod cid rid \<Rightarrow> snd (canjear f k cod cid rid s)
      | MarcarEntregado f a e k \<Rightarrow> snd (marcarEntregado f a e k s)
      | Cancelar f a e k \<Rightarrow> snd (cancelar f a e k s))"
  by (cases op) (auto split: prod.splits sum.splits)

lemma agregarPuntos_canjes: "canjes (snd (agregarPuntos f a e emp tok mo s)) = canjes s"
  by (auto simp: agregarPuntos_def otorgarPuntos_def Let_def incrementarEstadisticas_def
      marcarComoUsado_def split: option.splits numero.splits sum.splits)

lemma canjear_canjes:
  "canjes s k = Some c \<Longrightarrow> canjes (snd (canjear f k' cod cid rid s)) k = Some c"
  by (auto simp: canjear_def procesarCanje_def Let_def split: option.splits)

lemma marcarEntregado_canjes:
  "canjes s k = Some c \<Longrightarrow> estado c \<noteq> Pendiente \<Longrightarrow>
     canjes (snd (marcarEntregado f a e k' s)) k = Some c"
  by (cases "estado c") (auto simp: marcarEntregado_def split: option.splits)

lemma cancelar_canjes:
  "canjes s k = Some c \<Longrightarrow> estado c \<noteq> Pendiente \<Longrightarrow>
     canjes (snd (cancelar f a e k' s)) k = Some c"
  by (auto simp: cancelar_def Let_def split: option.splits)

section \<open>Conservation of points\<close>

text \<open>
  \<^bold>\<open>C1\<close> as stated fails. Every write of a customer document changes the total and the
  entry of the business by the same number of points, but the two are doubles of
  different magnitudes, and the two results are rounded separately. The customer of the
  sample database (50 points: 5 at business 22 and 45 at business 33, so the invariant
  holds) redeems the reward of 1.2 points twice; both requests succeed. The total is then
  47.599999999999994, the entries are 2.5999999999999996 and 45: their sum is not the
  total, neither as a number nor added as doubles (47.6).
\<close>

theorem canjear_decimal_no_conserva:
  "conservacion bdPrecio
   \<and> map_option puntosRequeridos (recompensas bdPrecio 104)
       = Some (5404319552844595 / 4503599627370496)
   \<and> exitosas canjesDecimales bdPrecio = Some bdTrasCanjes
   \<and> map_option puntos (usuarios bdTrasCanjes 11) = Some (1674776111428403 / 35184372088832)
   \<and> map_option (map pe_puntos \<circ> puntosPorEmpresa) (usuarios bdTrasCanjes 11)
       = Some [1463669878895411 / 562949953421312, 45]
   \<and> map_option sumaPorEmpresa (usuarios bdTrasCanjes 11)
       = Some (26796417782854451 / 562949953421312)
   \<and> suma (1463669878895411 / 562949953421312) 45 = 6699104445713613 / 140737488355328
   \<and> \<not> conservacion bdTrasCanjes"
proof -
  have c: "conservacion bdPrecio"
    by (simp add: conservacion_def sumaPorEmpresa_def bdPrecio_def ejemplo_defs)
  have r: "map_option puntosRequeridos (recompensas bdPrecio 104)
       = Some (5404319552844595 / 4503599627370496)"
    by (simp add: bdPrecio_def ejemplo_defs doble_eval)
  have u: "usuarios bdTrasCanjes 11
      = Some (clienteEjemplo\<lparr>puntos := 1674776111428403 / 35184372088832,
           puntosPorEmpresa :=
             [\<lparr>pe_empresa = Some 22, pe_puntos = 1463669878895411 / 562949953421312,
               pe_ultimaTransaccion = 0\<rparr>,
              \<lparr>pe_empresa = Some 33, pe_puntos = 45, pe_ultimaTransaccion = 0\<rparr>]\<rparr>)"
    by (simp add: bdTrasCanjes_def bdPrecio_def ejemplo_defs evaluar)
  have e: "exitosas canjesDecimales bdPrecio = Some bdTrasCanjes"
    by (simp add: canjesDecimales_def bdTrasCanjes_def bdPrecio_def ejemplo_defs evaluar)
  have s: "suma (1463669878895411 / 562949953421312) 45 = 6699104445713613 / 140737488355328"
    by (simp add: doble_eval)
  have n: "\<not> conservacion bdTrasCanjes"
  proof
    assume "conservacion bdTrasCanjes"
    then have "\<forall>i u. usuarios bdTrasCanjes i = Some u \<longrightarrow> puntos u = sumaPorEmpresa u"
      by (simp only: conservacion_def)
    from this[rule_format, OF u] show False
      by (simp add: sumaPorEmpresa_def)
  qed
  from c r e u s n show ?thesis
    by (simp add: sumaPorEmpresa_def)
qed

text \<open>
  Integers are not enough: a credit of \<open>2^53\<close> points (an amount of \<open>2^53 * 100\<close> pesos
  at 1 point per 100 pesos) to the same customer succeeds and leaves the total at
  \<open>2^53 + 50\<close> and the entry of the business at \<open>2^53 + 4\<close>, since \<open>2^53 + 5\<close> is not a
  double.
\<close>

lemma agregarPuntos_grande_no_conserva:
  "fst (validarQR 1000 ''qr-1'' bdEjemplo) = Inr 11
   \<and> puntosCalculados empresaEjemplo 900719925474099200 = 9007199254740992
   \<and> fst (agregarPuntos None 1000 22 empresaEjemplo ''qr-1''
             (Some (Num 900719925474099200)) bdEjemplo)
       = Inr \<lparr>tx_cliente = 11, tx_empresa = 22, tx_monto = 900719925474099200,
               tx_puntosOtorgados = 9007199254740992, tx_puntosAnteriores = 50,
               puntosNuevos = 9007199254741042, tx_qrToken = ''qr-1''\<rparr>
   \<and> map_option puntos
        (usuarios (snd (agregarPuntos None 1000 22 empresaEjemplo ''qr-1''
                          (Some (Num 900719925474099200)) bdEjemplo)) 11)
       = Some 9007199254741042
   \<and> map_option (map pe_puntos \<circ> puntosPorEmpresa)
        (usuarios (snd (agregarPuntos None 1000 22 empresaEjemplo ''qr-1''
                          (Some (Num 900719925474099200)) bdEjemplo)) 11)
       = Some [9007199254740996, 45]"
  by (simp add: ejemplo_defs evaluar)

text \<open>
  When no addition or subtraction of points rounds, every write of a customer document
  stores the total and the per-business entries together, so each request keeps the
  invariant, whatever its outcome.
\<close>

lemma conservacion_guardar:
  "conservacion s \<Longrightarrow> puntos u = sumaPorEmpresa u \<Longrightarrow>
     conservacion (s\<lparr>usuarios := (usuarios s)(i \<mapsto> u)\<rparr>)"
  by (simp add: conservacion_def)

lemma conservacion_usuarios:
  "usuarios s' = usuarios s \<Longrightarrow> conservacion s' = conservacion s"
  by (simp add: conservacion_def)

lemma conservacion_incrementar:
  "conservacion s \<Longrightarrow> conservacion (incrementarEstadisticas e m s)"
  by (auto simp: conservacion_def incrementarEstadisticas_def sumaPorEmpresa_def split: option.splits)

lemma conservacion_otorgar:
  assumes "conservacion s" and "enteros s" and "entero (puntosCalculados emp m)"
  shows "conservacion (snd (otorgarPuntos falla ahora e emp tok m cid s))"
proof (cases "usuarios s cid")
  case None
  with assms show ?thesis by (simp add: otorgarPuntos_def)
next
  case (Some u)
  let ?u' = "sumarPuntos e (puntosCalculados emp m) ahora u"
  let ?s1 = "s\<lparr>usuarios := (usuarios s)(cid \<mapsto> ?u')\<rparr>"
  from assms Some have "puntos u = sumaPorEmpresa u" by (simp add: conservacion_def)
  moreover from assms(2) Some have ue: "usuarioEntero u" by (simp add: enteros_def)
  moreover from ue have "entero (puntos u)" by (simp add: usuarioEntero_def)
  ultimately have "puntos ?u' = sumaPorEmpresa ?u'"
    using assms(3) by (simp add: sumarPuntos_puntos sumarPuntos_suma suma_entero)
  with assms(1) have c1: "conservacion ?s1" by (rule conservacion_guardar)
  then have c2: "conservacion (incrementarEstadisticas e m ?s1)"
    by (rule conservacion_incrementar)
  then have c3: "conservacion (incrementarEstadisticas e m ?s1
      \<lparr>transacciones := transacciones (incrementarEstadisticas e m ?s1) @ [x]\<rparr>)" for x
    by (simp add: conservacion_def)
  then have c4: "conservacion (snd (marcarComoUsado tok e (incrementarEstadisticas e m ?s1
      \<lparr>transacciones := transacciones (incrementarEstadisticas e m ?s1) @ [x]\<rparr>)))" for x
    by (simp add: conservacion_def marcarComoUsado_usuarios)
  from Some assms(1) c1 c2 c3 c4 show ?thesis
    by (simp add: otorgarPuntos_def Let_def)
qed

lemma conservacion_agregarPuntos:
  "conservacion s \<Longrightarrow> enteros s \<Longrightarrow> creditoEntero (AgregarPuntos falla ahora e emp tok mo) \<Longrightarrow>
     conservacion (snd (agregarPuntos falla ahora e emp tok mo s))"
  by (auto simp: agregarPuntos_def conservacion_otorgar split: option.splits numero.splits sum.splits)

lemma conservacion_procesarCanje:
  assumes "conservacion s" and "usuarios s cid = Some u"
    and "puntosRequeridos r \<le> puntosEnEmpresa (rec_empresa r) u"
    and "usuarioEntero u" and "entero (puntosRequeridos r)"
  shows "conservacion (snd (procesarCanje falla k cod cid u rid r s))"
proof (cases "1 \<le> puntosRequeridos r")
  case False
  with assms show ?thesis by (simp add: procesarCanje_def canjeValido_def Let_def)
next
  case True
  let ?u' = "restarPuntos (rec_empresa r) (puntosRequeridos r) u"
  from assms have "puntos u = sumaPorEmpresa u" by (simp add: conservacion_def)
  moreover from assms(4) have "entero (puntos u)" by (simp add: usuarioEntero_def)
  ultimately have u': "puntos ?u' = sumaPorEmpresa ?u'"
    using assms(3,4,5) True by (simp add: restarPuntos_puntos restarPuntos_suma resta_entero)
  have c1: "conservacion (s\<lparr>canjes := x\<rparr>)" for x
    using assms(1) by (simp add: conservacion_def)
  have c2: "conservacion (s\<lparr>canjes := x, usuarios := (usuarios s)(cid \<mapsto> ?u')\<rparr>)" for x
    using assms(1) u' by (simp add: conservacion_def)
  have c3: "conservacion (s\<lparr>canjes := x, usuarios := (usuarios s)(cid \<mapsto> ?u'), recompensas := y\<rparr>)" for x y
    using assms(1) u' by (simp add: conservacion_def)
  from assms(1) c1 c2 c3 show ?thesis
    by (simp add: procesarCanje_def Let_def)
qed

lemma conservacion_canjear:
  "conservacion s \<Longrightarrow> enteros s \<Longrightarrow> conservacion (snd (canjear falla k cod cid rid s))"
  by (auto simp: canjear_def conservacion_procesarCanje enteros_def split: option.splits)

lemma conservacion_marcarEntregado:
  "conservacion s \<Longrightarrow> conservacion (snd (marcarEntregado falla ahora e k s))"
  by (auto simp: marcarEntregado_def conservacion_def split: option.splits)

lemma conservacion_cancelar:
  assumes "conservacion s" and "enteros s"
  shows "conservacion (snd (cancelar falla ahora e k s))"
proof -
  have "puntos (sumarPuntos (cj_empresa c) (puntosCanjeados c) ahora u)
      = sumaPorEmpresa (sumarPuntos (cj_empresa c) (puntosCanjeados c) ahora u)"
    if "canjes s k = Some c" and "usuarios s (cj_cliente c) = Some u" for c u
  proof -
    from assms(2) that have "usuarioEntero u" and "entero (puntosCanjeados c)"
      by (auto simp: enteros_def)
    moreover from this have "entero (puntos u)" by (simp add: usuarioEntero_def)
    moreover from assms(1) that have "puntos u = sumaPorEmpresa u" by (simp add: conservacion_def)
    ultimately show ?thesis
      by (simp add: sumarPuntos_puntos sumarPuntos_suma suma_entero)
  qed
  with assms(1) show ?thesis
    by (auto simp: cancelar_def Let_def conservacion_def split: option.splits if_splits)
qed

lemma conservacion_ejecutar:
  "conservacion s \<Longrightarrow> enteros s \<Longrightarrow> creditoEntero op \<Longrightarrow> conservacion (snd (ejecutar op s))"
  unfolding snd_ejecutar
  by (cases op)
    (simp_all add: conservacion_agregarPuntos conservacion_canjear
      conservacion_marcarEntregado conservacion_cancelar del: creditoEntero.simps)

text \<open>
  \<^bold>\<open>C1\<close>, amended (conservation for integer points). From a state in which every
  user's total \<open>puntos\<close> equals the sum of the \<open>puntos\<close> of the entries of
  \<open>puntosPorEmpresa\<close>, any sequence of requests (agregarPuntos, canjear, cancelar,
  marcarEntregado) that all succeed leads to a state in which the same holds for every
  user, provided that each request finds every total, every per-business entry, every
  price of a reward and every amount of a redemption an integer of magnitude below
  \<open>2^52\<close>, and that each credit computes such an integer.
\<close>

theorem conservacion_exitosas:
  "conservacion s \<Longrightarrow> exactas ops s \<Longrightarrow> exitosas ops s = Some s' \<Longrightarrow> conservacion s'"
proof (induction ops arbitrary: s)
  case Nil
  then show ?case by simp
next
  case (Cons op ops)
  from Cons.prems(3) obtain s1 where e: "ejecutar op s = (None, s1)" and r: "exitosas ops s1 = Some s'"
    by (auto split: prod.splits option.splits)
  from Cons.prems(2) have ex: "enteros s" "creditoEntero op" "exactas ops (snd (ejecutar op s))"
    by simp_all
  from Cons.prems(1) ex(1,2) have "conservacion (snd (ejecutar op s))" by (rule conservacion_ejecutar)
  with e have "conservacion s1" by simp
  moreover from ex(3) e have "exactas ops s1" by simp
  ultimately show ?case using r by (rule Cons.IH)
qed

text \<open>
  The sample database satisfies the invariant, the four sample requests (a credit of 250
  pesos, a redemption, its cancellation, a delivery) all succeed and find integer points,
  and the invariant holds after them.
\<close>

lemma exactas_ejemplo: "exactas operacionesEjemplo bdEjemplo"
  by (simp add: operacionesEjemplo_def ejemplo_defs evaluar enteros_def usuarioEntero_def entero_def)

theorem conservacion_exitosas_witness:
  "conservacion bdEjemplo \<and> exactas operacionesEjemplo bdEjemplo
   \<and> (\<exists>s'. exitosas operacionesEjemplo bdEjemplo = Some s' \<and> conservacion s')"
proof -
  have c: "conservacion bdEjemplo"
    by (simp add: conservacion_def sumaPorEmpresa_def ejemplo_defs)
  have "exitosas operacionesEjemplo bdEjemplo \<noteq> None"
    by (simp add: operacionesEjemplo_def ejemplo_defs evaluar)
  then obtain s' where e: "exitosas operacionesEjemplo bdEjemplo = Some s'" by auto
  from conservacion_exitosas[OF c exactas_ejemplo e] c exactas_ejemplo e show ?thesis by blast
qed

section \<open>Single use of a QR token\<close>

text \<open>
  \<^bold>\<open>C2\<close> as stated fails: \<open>marcarComoUsado\<close> is an unconditional update, so a second call
  on the same token returns the updated document as the first did and overwrites
  \<open>usadoPor\<close>; and the check (\<open>validarQR\<close>) is a read separate from the write. Two requests
  that both validated the token before either marked it are both credited: below, the
  token is valid in the sample database, the first request's writes raise the balance from
  50 to 52, and the second request's writes, run on the state the first left (token
  already marked), raise it from 52 to 54.
\<close>

theorem marcarComoUsado_dos_veces:
  "map_option usadoPor (fst (marcarComoUsado ''qr-1'' 22 bdEjemplo)) = Some (Some 22)
   \<and> map_option usadoPor
        (fst (marcarComoUsado ''qr-1'' 33 (snd (marcarComoUsado ''qr-1'' 22 bdEjemplo)))) = Some (Some 33)
   \<and> fst (validarQR 1000 ''qr-1'' bdEjemplo) = Inr 11
   \<and> fst (otorgarPuntos None 1000 22 empresaEjemplo ''qr-1'' 250 11 bdEjemplo)
        = Inr \<lparr>tx_cliente = 11, tx_empresa = 22, tx_monto = 250, tx_puntosOtorgados = 2,
                tx_puntosAnteriores = 50, puntosNuevos = 52, tx_qrToken = ''qr-1''\<rparr>
   \<and> fst (otorgarPuntos None 1001 22 empresaEjemplo ''qr-1'' 250 11
             (snd (otorgarPuntos None 1000 22 empresaEjemplo ''qr-1'' 250 11 bdEjemplo)))
        = Inr \<lparr>tx_cliente = 11, tx_empresa = 22, tx_monto = 250, tx_puntosOtorgados = 2,
                tx_puntosAnteriores = 52, puntosNuevos = 54, tx_qrToken = ''qr-1''\<rparr>"
  by (simp add: validarQR_def estaExpirado_def marcarComoUsado_def otorgarPuntos_def ejemplo_defs
      Let_def rechaza_def transaccionValida_def puntosCalculados_def configuracionDe_def
      sumarPuntos_def esDeEmpresa_def incrementarEstadisticas_def doble_eval)

lemma otorgarPuntos_error: "fst (otorgarPuntos f a e emp tok m cid s) = Inl err \<Longrightarrow> err = ErrorServidor"
  by (auto simp: otorgarPuntos_def Let_def split: option.splits if_splits)

lemma otorgarPuntos_marca:
  "otorgarPuntos f a e emp tok m cid s = (Inr tx, s1) \<Longrightarrow> qrTokens s tok = Some qr \<Longrightarrow>
     qrTokens s1 tok = Some (qr\<lparr>usado := True, usadoPor := Some e\<rparr>)"
  by (auto simp: otorgarPuntos_def Let_def marcarComoUsado_def incrementarEstadisticas_def
      split: option.splits if_splits)

lemma agregarPuntos_marca:
  assumes "agregarPuntos f a e emp tok mo s = (Inr tx, s1)"
  shows "\<exists>qr. qrTokens s tok = Some qr \<and> qrTokens s1 tok = Some (qr\<lparr>usado := True, usadoPor := Some e\<rparr>)"
proof -
  from assms obtain m cid where v: "fst (validarQR a tok s) = Inr cid"
    and o: "otorgarPuntos f a e emp tok m cid s = (Inr tx, s1)"
    by (auto simp: agregarPuntos_def split: option.splits numero.splits sum.splits if_splits)
  from v obtain qr where "qrTokens s tok = Some qr"
    by (auto simp: validarQR_def split: option.splits if_splits)
  with otorgarPuntos_marca[OF o] show ?thesis by simp
qed

text \<open>
  \<^bold>\<open>C2\<close>, amended (single use of a token by requests that run one after another). After
  an agregarPuntos that succeeded with a token, that token is stored as used by the
  crediting business; at any later time \<open>validarQR\<close> rejects it with \<open>QR_USED\<close> or
  \<open>QR_EXPIRED\<close>, and every later agregarPuntos with it fails and changes nothing. A
  \<open>marcarComoUsado\<close> called on it again still returns the updated document, with the new
  \<open>usadoPor\<close>: the refusal is \<open>validarQR\<close>'s alone.
\<close>

theorem token_usado_rechazado:
  assumes "agregarPuntos f a e emp tok mo s = (Inr tx, s1)"
  shows "(\<exists>qr. qrTokens s1 tok = Some qr \<and> usado qr \<and> usadoPor qr = Some e
            \<and> fst (marcarComoUsado tok e' s1) = Some (qr\<lparr>usado := True, usadoPor := Some e'\<rparr>))
       \<and> (fst (validarQR a' tok s1) = Inl QR_USED \<or> fst (validarQR a' tok s1) = Inl QR_EXPIRED)
       \<and> (\<exists>err. agregarPuntos f' a' e' emp' tok mo' s1 = (Inl err, s1))"
proof -
  from agregarPuntos_marca[OF assms] obtain qr where
    q: "qrTokens s1 tok = Some (qr\<lparr>usado := True, usadoPor := Some e\<rparr>)" by blast
  then have v: "fst (validarQR a' tok s1) = Inl QR_USED \<or> fst (validarQR a' tok s1) = Inl QR_EXPIRED"
    by (simp add: validarQR_def)
  then have "\<exists>err. agregarPuntos f' a' e' emp' tok mo' s1 = (Inl err, s1)"
    by (auto simp: agregarPuntos_def split: option.splits numero.splits)
  moreover from q have "fst (marcarComoUsado tok e' s1)
      = Some (qr\<lparr>usado := True, usadoPor := Some e\<rparr>\<lparr>usado := True, usadoPor := Some e'\<rparr>)"
    by (simp add: marcarComoUsado_def Let_def)
  ultimately show ?thesis using q v by simp
qed

lemma agregarPuntos_ejemplo_fst:
  "fst (agregarPuntos None 1000 22 empresaEjemplo ''qr-1'' (Some (Num 250)) bdEjemplo)
     = Inr \<lparr>tx_cliente = 11, tx_empresa = 22, tx_monto = 250, tx_puntosOtorgados = 2,
             tx_puntosAnteriores = 50, puntosNuevos = 52, tx_qrToken = ''qr-1''\<rparr>"
  by (simp add: ejemplo_defs evaluar)

text \<open>
  On the sample database the credit of 250 pesos succeeds, and a second credit with the
  same token one millisecond later fails and leaves the state as the first left it.
\<close>

theorem token_usado_rechazado_witness:
  "fst (agregarPuntos None 1000 22 empresaEjemplo ''qr-1'' (Some (Num 250)) bdEjemplo)
     = Inr \<lparr>tx_cliente = 11, tx_empresa = 22, tx_monto = 250, tx_puntosOtorgados = 2,
             tx_puntosAnteriores = 50, puntosNuevos = 52, tx_qrToken = ''qr-1''\<rparr>
   \<and> (\<exists>err. agregarPuntos None 1001 22 empresaEjemplo ''qr-1'' (Some (Num 250))
                 (snd (agregarPuntos None 1000 22 empresaEjemplo ''qr-1'' (Some (Num 250)) bdEjemplo))
               = (Inl err, snd (agregarPuntos None 1000 22 empresaEjemplo ''qr-1'' (Some (Num 250)) bdEjemplo)))"
proof -
  have a: "agregarPuntos None 1000 22 empresaEjemplo ''qr-1'' (Some (Num 250)) bdEjemplo
     = (Inr \<lparr>tx_cliente = 11, tx_empresa = 22, tx_monto = 250, tx_puntosOtorgados = 2,
             tx_puntosAnteriores = 50, puntosNuevos = 52, tx_qrToken = ''qr-1''\<rparr>,
        snd (agregarPuntos None 1000 22 empresaEjemplo ''qr-1'' (Some (Num 250)) bdEjemplo))"
    using agregarPuntos_ejemplo_fst by (simp add: prod_eq_iff)
  from token_usado_rechazado[OF a, where a' = 1001 and f' = None and e' = 22
      and emp' = empresaEjemplo and mo' = "Some (Num 250)"] agregarPuntos_ejemplo_fst
  show ?thesis by blast
qed

section \<open>Redemption followed by cancellation\<close>

text \<open>
  \<^bold>\<open>C3\<close> as stated fails: the points that canjear subtracts and cancelar adds back are
  doubles, and \<open>(a - p) + p\<close> need not be \<open>a\<close>. The customer with 48.9 points, 3.9 of them
  at business 22, redeems the reward of 1.2 points (2.7 are left at the business) and the
  business cancels: the response returns the 1.2 points, the total is 48.9 again and the
  reward is as it was, but the entry of the business is 3.9000000000000004.
\<close>

theorem canjear_cancelar_decimal:
  "map_option puntos (usuarios bdDecimal 13) = Some (6882063180575539 / 140737488355328)
   \<and> map_option (puntosEnEmpresa 22) (usuarios bdDecimal 13)
       = Some (8782019273372467 / 2251799813685248)
   \<and> map_option puntosRequeridos (recompensas bdDecimal 104)
       = Some (5404319552844595 / 4503599627370496)
   \<and> fst (canjear None 9 ''CJ-A1B2C3D4'' 13 (Some 104) bdDecimal)
       = Inr \<lparr>cj_cliente = 13, cj_recompensa = 104, cj_empresa = 22,
               puntosCanjeados = 5404319552844595 / 4503599627370496,
               cj_puntosAnteriores = 6882063180575539 / 140737488355328,
               puntosRestantes = 6713178194549145 / 140737488355328,
               codigoCanje = ''CJ-A1B2C3D4'', estado = Pendiente, fechaEntrega = None\<rparr>
   \<and> map_option (puntosEnEmpresa 22) (usuarios bdCanjeDecimal 13)
       = Some (3039929748475085 / 1125899906842624)
   \<and> fst (cancelar None 600 22 9 bdCanjeDecimal) = Inr (5404319552844595 / 4503599627370496)
   \<and> map_option estado (canjes bdCanceladoDecimal 9) = Some Cancelado
   \<and> map_option puntos (usuarios bdCanceladoDecimal 13) = Some (6882063180575539 / 140737488355328)
   \<and> map_option (puntosEnEmpresa 22) (usuarios bdCanceladoDecimal 13)
       = Some (2195504818343117 / 562949953421312)
   \<and> recompensas bdCanceladoDecimal 104 = recompensas bdDecimal 104"
  by (simp add: bdCanceladoDecimal_def bdCanjeDecimal_def bdDecimal_def clienteDecimal_def
      bdPrecio_def ejemplo_defs evaluar)

text \<open>
  \<^bold>\<open>C3\<close>, amended (reversal round trip for integer points). When canjear succeeds for a
  customer and a reward, and the customer's \<open>puntos\<close>, the customer's points at the
  reward's business and the reward's \<open>puntosRequeridos\<close>, \<open>stock\<close> and \<open>canjesRealizados\<close>
  are integers of magnitude below \<open>2^52\<close>, the counter \<open>canjesRealizados\<close> not negative
  (it starts at 0 and no request makes it negative), cancelling the new redemption right
  away by the reward's business succeeds, returns the points spent, and leaves the
  customer's \<open>puntos\<close>, the customer's points at that business and the whole reward
  document (so \<open>stock\<close> and \<open>canjesRealizados\<close>) as they were before the redemption.
\<close>

theorem canjear_cancelar_restaura:
  assumes canje: "canjear falla k cod cid (Some rid) s = (Inr c, s1)"
    and u: "usuarios s cid = Some u" and r: "recompensas s rid = Some r"
    and cnt: "0 \<le> canjesRealizados r"
    and ent: "entero (puntos u)" "entero (puntosEnEmpresa (rec_empresa r) u)"
      "entero (puntosRequeridos r)" "entero (stock r)" "entero (canjesRealizados r)"
  shows "\<exists>s2 u2. cancelar None ahora (rec_empresa r) k s1 = (Inr (puntosRequeridos r), s2)
            \<and> usuarios s2 cid = Some u2
            \<and> puntos u2 = puntos u
            \<and> puntosEnEmpresa (rec_empresa r) u2 = puntosEnEmpresa (rec_empresa r) u
            \<and> recompensas s2 rid = Some r"
proof -
  note ex = canjear_exito[OF canje u r]
  note pr = procesarCanje_exito[OF ex(5)]
  let ?e = "rec_empresa r" and ?p = "puntosRequeridos r"
  let ?u1 = "restarPuntos ?e ?p u"
  let ?u2 = "sumarPuntos ?e ?p ahora ?u1"
  let ?r1 = "r\<lparr>stock := (if stock r \<noteq> -1 then resta (stock r) 1 else stock r),
                canjesRealizados := suma (canjesRealizados r) 1\<rparr>"
  have k: "canjes s1 k = Some c" and u1: "usuarios s1 cid = Some ?u1"
    and r1: "recompensas s1 rid = Some ?r1"
    by (simp_all add: pr(4))
  have cf: "cj_empresa c = ?e" "estado c = Pendiente" "cj_cliente c = cid"
    "cj_recompensa c = rid" "puntosCanjeados c = ?p"
    by (simp_all add: pr(3))
  have p0: "0 \<le> ?p"
    using pr(1) by simp
  have st: "resta (stock r) 1 \<noteq> - 1 \<and> suma (resta (stock r) 1) 1 = stock r" if "stock r \<noteq> - 1"
  proof -
    from that ex(2) have pos: "0 < stock r" by simp
    obtain m where m: "stock r = of_int m"
      using ent(4) unfolding entero_def by metis
    from pos m have "1 \<le> stock r" by simp
    with ent(4) have "entero (stock r - 1)"
      by (simp add: entero_diferencia entero_numeros)
    moreover have "resta (stock r) 1 = stock r - 1"
      using ent(4) by (simp add: resta_entero entero_numeros)
    ultimately show ?thesis
      using pos by (simp add: suma_entero entero_numeros)
  qed
  have cr: "max 0 (resta (suma (canjesRealizados r) 1) 1) = canjesRealizados r"
  proof -
    have a: "suma (canjesRealizados r) 1 = canjesRealizados r + 1"
      using ent(5) by (simp add: suma_entero entero_numeros)
    have "of_int \<lfloor>canjesRealizados r\<rfloor> = canjesRealizados r" "\<bar>canjesRealizados r\<bar> < 2 ^ 53"
      using ent(5) by (simp_all add: entero_def)
    hence "redondear (canjesRealizados r) = canjesRealizados r"
      by (rule redondear_entero)
    with a cnt show ?thesis
      by (simp add: resta_def)
  qed
  have rest: "restaurarRecompensa ?r1 = r"
    using st cr by (simp add: restaurarRecompensa_def)
  have p1: "resta (puntos u) ?p = puntos u - ?p"
    using ent by (simp add: resta_entero)
  have "entero (puntos u - ?p)"
    using ent(1,3) ex(3) p0 by (rule entero_diferencia)
  with p1 ent(3) have p2: "puntos ?u2 = puntos u"
    by (simp add: sumarPuntos_puntos restarPuntos_puntos suma_entero)
  have e1: "puntosEnEmpresa ?e ?u1 = puntosEnEmpresa ?e u - ?p"
    using ex(4) pr(1) ent by (simp add: restarPuntos_enEmpresa resta_entero)
  have "entero (puntosEnEmpresa ?e u - ?p)"
    using ent(2,3) ex(4) p0 by (rule entero_diferencia)
  with e1 ent(3) have e2: "puntosEnEmpresa ?e ?u2 = puntosEnEmpresa ?e u"
    by (simp add: sumarPuntos_enEmpresa)
  have "cancelar None ahora ?e k s1 =
      (Inr ?p, s1\<lparr>usuarios := (usuarios s1)(cid \<mapsto> ?u2),
                  recompensas := (recompensas s1)(rid \<mapsto> r),
                  canjes := (canjes s1)(k \<mapsto> c\<lparr>estado := Cancelado\<rparr>)\<rparr>)"
    by (simp add: cancelar_def k u1 r1 cf rest rechaza_def Let_def)
  with p2 e2 show ?thesis by simp
qed

text \<open>
  On the sample database: the customer redeems the 2-point reward and the business
  cancels; the balance is 50 again, the balance at the business 5, the reward unchanged.
\<close>

theorem canjear_cancelar_restaura_witness:
  "fst (canjear None 9 ''CJ-A1B2C3D4'' 11 (Some 101) bdEjemplo)
     = Inr \<lparr>cj_cliente = 11, cj_recompensa = 101, cj_empresa = 22, puntosCanjeados = 2,
             cj_puntosAnteriores = 50, puntosRestantes = 48, codigoCanje = ''CJ-A1B2C3D4'',
             estado = Pendiente, fechaEntrega = None\<rparr>
   \<and> (\<exists>s2 u2. cancelar None 600 22 9 (snd (canjear None 9 ''CJ-A1B2C3D4'' 11 (Some 101) bdEjemplo))
                  = (Inr 2, s2)
          \<and> usuarios s2 11 = Some u2 \<and> puntos u2 = 50 \<and> puntosEnEmpresa 22 u2 = 5
          \<and> recompensas s2 101 = Some (recompensaEjemplo 2))"
proof -
  have n: "0 \<le> canjesRealizados (recompensaEjemplo 2)"
    by (simp add: ejemplo_valores)
  have e: "entero (puntos clienteEjemplo)"
    "entero (puntosEnEmpresa (rec_empresa (recompensaEjemplo 2)) clienteEjemplo)"
    "entero (puntosRequeridos (recompensaEjemplo 2))"
    "entero (stock (recompensaEjemplo 2))"
    "entero (canjesRealizados (recompensaEjemplo 2))"
    by (simp_all add: ejemplo_valores entero_def)
  from canjear_cancelar_restaura[OF canjear_ejemplo ejemplo_valores(1) ejemplo_valores(3) n e,
      where ahora = 600]
  have "\<exists>s2 u2. cancelar None 600 22 9 (snd (canjear None 9 ''CJ-A1B2C3D4'' 11 (Some 101) bdEjemplo))
                  = (Inr 2, s2)
          \<and> usuarios s2 11 = Some u2 \<and> puntos u2 = 50 \<and> puntosEnEmpresa 22 u2 = 5
          \<and> recompensas s2 101 = Some (recompensaEjemplo 2)"
    by (simp add: ejemplo_valores)
  with canjear_ejemplo_fst show ?thesis by blast
qed

text \<open>
  The hypothesis on the sign of the counter holds in every state that requests can reach:
  no request makes a counter negative.
\<close>

lemma contadores_ejecutar:
  assumes "contadoresNoNegativos s"
  shows "contadoresNoNegativos (snd (ejecutar op s))"
proof (cases op)
  case (AgregarPuntos f a e emp tok mo)
  have "recompensas (snd (agregarPuntos f a e emp tok mo s)) = recompensas s"
    by (auto simp: agregarPuntos_def otorgarPuntos_def Let_def incrementarEstadisticas_def
        marcarComoUsado_def split: option.splits numero.splits sum.splits)
  with assms AgregarPuntos show ?thesis
    by (simp add: snd_ejecutar contadoresNoNegativos_def del: ejecutar.simps)
next
  case (Canjear f k cod cid rid)
  with assms show ?thesis
    by (auto simp: snd_ejecutar contadoresNoNegativos_def canjear_def procesarCanje_def Let_def
        suma_nonneg simp del: ejecutar.simps split: option.splits if_splits)
next
  case (MarcarEntregado f a e k)
  with assms show ?thesis
    by (auto simp: snd_ejecutar contadoresNoNegativos_def marcarEntregado_def
        simp del: ejecutar.simps split: option.splits if_splits)
next
  case (Cancelar f a e k)
  with assms show ?thesis
    by (auto simp: snd_ejecutar contadoresNoNegativos_def cancelar_def restaurarRecompensa_def Let_def
        simp del: ejecutar.simps split: option.splits if_splits)
qed

section \<open>The balance checks of canjear\<close>

text \<open>
  \<^bold>\<open>C4\<close> (the check of the balance at the business). When the customer's points at the
  reward's business are fewer than the reward requires, canjear fails and the state is
  unchanged (no balance, stock or redemption record changes). On every request that
  reaches that check (the reward is active and in stock, the total balance suffices, the
  business exists) the error is the one of the business balance, with the points held
  there, the points required and the shortfall, although the total balance suffices. The
  total balance is checked earlier: when it is insufficient too, the error is the one of
  the total balance.
\<close>

theorem canjear_saldo_empresa_insuficiente:
  assumes u: "usuarios s cid = Some u" and r: "recompensas s rid = Some r"
    and falta: "puntosEnEmpresa (rec_empresa r) u < puntosRequeridos r"
  shows "snd (canjear falla k cod cid (Some rid) s) = s
       \<and> (\<exists>e. fst (canjear falla k cod cid (Some rid) s) = Inl e)
       \<and> (rec_activo r \<and> (stock r = -1 \<or> 0 < stock r) \<and> puntosRequeridos r \<le> puntos u
            \<and> usuarios s (rec_empresa r) \<noteq> None \<longrightarrow>
          fst (canjear falla k cod cid (Some rid) s)
            = Inl (PuntosInsuficientesEmpresa (puntosEnEmpresa (rec_empresa r) u) (puntosRequeridos r)
                     (resta (puntosRequeridos r) (puntosEnEmpresa (rec_empresa r) u))))
       \<and> (rec_activo r \<and> (stock r = -1 \<or> 0 < stock r) \<and> puntos u < puntosRequeridos r \<longrightarrow>
          fst (canjear falla k cod cid (Some rid) s)
            = Inl (PuntosInsuficientes (puntos u) (puntosRequeridos r)
                     (resta (puntosRequeridos r) (puntos u))))"
  using assms by (auto simp: canjear_def split: option.splits)

text \<open>
  The sample customer has 50 points in total and 5 at business 22; the reward that
  requires 10 is refused with the business error (5 held, 10 required, 5 missing), the
  reward that requires 60 with the error of the total balance, and the database is
  unchanged both times.
\<close>

theorem canjear_saldo_empresa_insuficiente_witness:
  "puntosEnEmpresa 22 clienteEjemplo < puntosRequeridos (recompensaEjemplo 10)
   \<and> puntosRequeridos (recompensaEjemplo 10) \<le> puntos clienteEjemplo
   \<and> canjear None 9 ''CJ-A1B2C3D4'' 11 (Some 102) bdEjemplo
        = (Inl (PuntosInsuficientesEmpresa 5 10 5), bdEjemplo)
   \<and> puntosEnEmpresa 22 clienteEjemplo < puntosRequeridos (recompensaEjemplo 60)
   \<and> puntos clienteEjemplo < puntosRequeridos (recompensaEjemplo 60)
   \<and> canjear None 9 ''CJ-A1B2C3D4'' 11 (Some 103) bdEjemplo
        = (Inl (PuntosInsuficientes 50 60 10), bdEjemplo)"
proof -
  have d: "resta 10 5 = 5" "resta 60 50 = 10"
    by (simp_all add: doble_eval)
  have f: "puntosEnEmpresa (rec_empresa (recompensaEjemplo 10)) clienteEjemplo
             < puntosRequeridos (recompensaEjemplo 10)"
    and g: "puntosEnEmpresa (rec_empresa (recompensaEjemplo 60)) clienteEjemplo
             < puntosRequeridos (recompensaEjemplo 60)"
    by (simp_all add: ejemplo_valores)
  from canjear_saldo_empresa_insuficiente[OF ejemplo_valores(1) ejemplo_valores(4) f,
      where falla = None and k = 9 and cod = "''CJ-A1B2C3D4''"]
    canjear_saldo_empresa_insuficiente[OF ejemplo_valores(1) ejemplo_valores(5) g,
      where falla = None and k = 9 and cod = "''CJ-A1B2C3D4''"] d
  show ?thesis by (simp add: ejemplo_valores prod_eq_iff)
qed

section \<open>Amount validation and the points formula of agregarPuntos\<close>

text \<open>
  With a token and an amount in the request, the amount error is returned exactly for an
  amount that is not a number or is not positive. An amount of at least one cent (the
  double 0.01), with a valid token, no rejected write and a formula within the schema's
  bounds, is credited: the points are \<open>Math.floor(m / gastoRequerido) * puntosOtorgados\<close>
  in double arithmetic, added to the total and to the business's entry, which is created
  with those points when the customer has none there. An amount below \<open>gastoRequerido\<close>
  credits 0 points and succeeds.
\<close>

lemma agregarPuntos_montoInvalido:
  "tok \<noteq> [] \<Longrightarrow>
     (fst (agregarPuntos f a e emp tok (Some mo) s) = Inl MontoInvalido)
       = (mo = NaN \<or> (\<exists>m. mo = Num m \<and> m \<le> 0))"
  using otorgarPuntos_error[of f a e emp tok _ _ s MontoInvalido]
  by (auto simp: agregarPuntos_def split: numero.splits sum.splits)

lemma agregarPuntos_exito:
  assumes tok: "tok \<noteq> []" and m: "redondear (1 / 100) \<le> m"
    and cfg: "1 \<le> gastoRequerido (configuracionDe emp)" "0 \<le> puntosOtorgados (configuracionDe emp)"
    and v: "fst (validarQR a tok s) = Inr cid" and u: "usuarios s cid = Some u"
  shows "\<exists>tx s1 u1. agregarPuntos None a e emp tok (Some (Num m)) s = (Inr tx, s1)
           \<and> tx_puntosOtorgados tx
               = producto (piso (cociente m (gastoRequerido (configuracionDe emp))))
                   (puntosOtorgados (configuracionDe emp))
           \<and> usuarios s1 cid = Some u1
           \<and> puntos u1 = suma (puntos u) (tx_puntosOtorgados tx)
           \<and> puntosEnEmpresa e u1
               = (if findIndex (esDeEmpresa e) (puntosPorEmpresa u) = None then tx_puntosOtorgados tx
                  else suma (puntosEnEmpresa e u) (tx_puntosOtorgados tx))"
proof -
  have "0 < redondear (1 / 100)"
    by (simp add: doble_eval)
  with m have pos: "0 < m" by simp
  from pos cfg(1) have "0 \<le> cociente m (gastoRequerido (configuracionDe emp))"
    by (simp add: cociente_nonneg)
  then have "0 \<le> piso (cociente m (gastoRequerido (configuracionDe emp)))"
    by (simp add: piso_def)
  with cfg(2) have nn: "0 \<le> puntosCalculados emp m"
    by (simp add: puntosCalculados_def producto_nonneg)
  let ?p = "puntosCalculados emp m"
  let ?u1 = "sumarPuntos e ?p a u"
  let ?tx = "\<lparr>tx_cliente = cid, tx_empresa = e, tx_monto = m, tx_puntosOtorgados = ?p,
              tx_puntosAnteriores = puntos u, puntosNuevos = puntos ?u1, tx_qrToken = tok\<rparr>"
  let ?s3 = "(incrementarEstadisticas e m (s\<lparr>usuarios := (usuarios s)(cid \<mapsto> ?u1)\<rparr>))
               \<lparr>transacciones := transacciones (incrementarEstadisticas e m
                   (s\<lparr>usuarios := (usuarios s)(cid \<mapsto> ?u1)\<rparr>)) @ [?tx]\<rparr>"
  let ?s4 = "snd (marcarComoUsado tok e ?s3)"
  let ?uf = "if cid = e then ?u1\<lparr>totalTransacciones := suma (totalTransacciones ?u1) 1,
                 totalIngresos := suma (totalIngresos ?u1) m\<rparr> else ?u1"
  have r: "agregarPuntos None a e emp tok (Some (Num m)) s = (Inr ?tx, ?s4)"
    using pos m nn tok v u
    by (simp add: agregarPuntos_def otorgarPuntos_def Let_def rechaza_def transaccionValida_def)
  have uf: "usuarios ?s4 cid = Some ?uf"
    by (simp add: marcarComoUsado_usuarios incrementarEstadisticas_def split: option.splits)
  have "puntos ?uf = suma (puntos u) ?p" by (simp add: sumarPuntos_puntos)
  moreover have "puntosEnEmpresa e ?uf
      = (if findIndex (esDeEmpresa e) (puntosPorEmpresa u) = None then ?p
         else suma (puntosEnEmpresa e u) ?p)"
    by (simp add: puntosEnEmpresa_estadisticas sumarPuntos_enEmpresa_doble)
  moreover have "tx_puntosOtorgados ?tx
      = producto (piso (cociente m (gastoRequerido (configuracionDe emp))))
          (puntosOtorgados (configuracionDe emp))"
    by (simp add: puntosCalculados_def)
  ultimately show ?thesis using r uf by (metis transaccion.select_convs(4))
qed

text \<open>
  \<^bold>\<open>C5\<close> (every positive amount is credited) fails on the code for positive amounts
  below one cent. The controller accepts every amount above 0, but the Transaccion schema
  validates \<open>monto\<close> with a minimum of 0.01: for 0.005 pesos (the double nearest to
  \<open>1 / 200\<close>) and a valid token the
  customer document and the business's counters have been written when
  \<open>transaccion.save()\<close> rejects, the response is the 500 of the \<open>catch\<close> block, no
  transaction is recorded and the token is not marked as used.
\<close>

theorem agregarPuntos_monto_bajo_centavo:
  "fst (agregarPuntos None 1000 22 empresaEjemplo ''qr-1'' (Some (Num (redondear (1 / 200)))) bdEjemplo)
     = Inl ErrorServidor
   \<and> map_option totalTransacciones (usuarios bdEjemplo 22) = Some 0
   \<and> map_option totalTransacciones
        (usuarios (snd (agregarPuntos None 1000 22 empresaEjemplo ''qr-1'' (Some (Num (redondear (1 / 200)))) bdEjemplo)) 22)
       = Some 1
   \<and> map_option usado
        (qrTokens (snd (agregarPuntos None 1000 22 empresaEjemplo ''qr-1'' (Some (Num (redondear (1 / 200)))) bdEjemplo)) ''qr-1'')
       = Some False
   \<and> transacciones (snd (agregarPuntos None 1000 22 empresaEjemplo ''qr-1'' (Some (Num (redondear (1 / 200)))) bdEjemplo))
       = []"
  by (simp add: agregarPuntos_def validarQR_def estaExpirado_def otorgarPuntos_def ejemplo_defs
      Let_def rechaza_def transaccionValida_def puntosCalculados_def configuracionDe_def
      sumarPuntos_def esDeEmpresa_def incrementarEstadisticas_def doble_eval)

text \<open>The response is not the amount error, and the business's document has changed.\<close>

theorem agregarPuntos_monto_bajo_centavo_witness:
  "fst (agregarPuntos None 1000 22 empresaEjemplo ''qr-1'' (Some (Num (redondear (1 / 200)))) bdEjemplo)
     \<noteq> Inl MontoInvalido
   \<and> usuarios (snd (agregarPuntos None 1000 22 empresaEjemplo ''qr-1'' (Some (Num (redondear (1 / 200)))) bdEjemplo)) 22
     \<noteq> usuarios bdEjemplo 22"
  using agregarPuntos_monto_bajo_centavo by auto

section \<open>Expired tokens\<close>

text \<open>
  \<^bold>\<open>C6\<close> as stated fails for consumption: \<open>marcarComoUsado\<close> does not look at
  \<open>expiraEn\<close>. The sample token expires at 30000; at 40000 \<open>validarQR\<close> rejects it as
  expired, yet \<open>marcarComoUsado\<close> (which takes no time) returns the updated document and
  stores it as used.
\<close>

theorem marcarComoUsado_token_expirado:
  "expiraEn tokenEjemplo < 40000
   \<and> fst (validarQR 40000 ''qr-1'' bdEjemplo) = Inl QR_EXPIRED
   \<and> map_option usado (fst (marcarComoUsado ''qr-1'' 22 bdEjemplo)) = Some True
   \<and> map_option usado (qrTokens bdEjemplo ''qr-1'') = Some False
   \<and> map_option usado (qrTokens (snd (marcarComoUsado ''qr-1'' 22 bdEjemplo)) ''qr-1'') = Some True"
  by (simp add: validarQR_def estaExpirado_def marcarComoUsado_def ejemplo_defs Let_def)

lemma validarQR_no_vigente:
  assumes "qrTokens s tok = None \<or> (\<exists>qr. qrTokens s tok = Some qr \<and> expiraEn qr < ahora)"
  shows "fst (validarQR ahora tok s) = Inl QR_NOT_FOUND \<or> fst (validarQR ahora tok s) = Inl QR_EXPIRED"
  using assms by (auto simp: validarQR_def estaExpirado_def)

lemma agregarPuntos_no_vigente:
  assumes "qrTokens s tok = None \<or> (\<exists>qr. qrTokens s tok = Some qr \<and> expiraEn qr < ahora)"
  shows "\<exists>err. agregarPuntos f ahora e emp tok mo s = (Inl err, s)"
  using validarQR_no_vigente[OF assms]
  by (auto simp: agregarPuntos_def split: option.splits numero.splits)

lemma limpiarExpirados_token:
  "qrTokens s tok = Some qr \<Longrightarrow> expiraEn qr < ahora \<Longrightarrow>
     qrTokens (limpiarExpirados t s) tok = None \<or> qrTokens (limpiarExpirados t s) tok = Some qr"
  by (simp add: limpiarExpirados_def)

lemma indiceTTL_token:
  "qrTokens s tok = Some qr \<Longrightarrow> expiraEn qr < ahora \<Longrightarrow>
     qrTokens (indiceTTL t s) tok = None \<or> qrTokens (indiceTTL t s) tok = Some qr"
  by (simp add: indiceTTL_def)

text \<open>
  \<^bold>\<open>C6\<close>, amended. For a token whose \<open>expiraEn\<close> is in the past, whatever its flag
  \<open>usado\<close>, and whether or not \<open>limpiarExpirados\<close> or the TTL index has removed it:
  \<open>validarQR\<close> fails (\<open>QR_EXPIRED\<close> while the document exists, \<open>QR_NOT_FOUND\<close> once it is
  gone), and agregarPuntos, which validates before it consumes, fails and leaves the state,
  the token included, unchanged. \<open>marcarComoUsado\<close> itself marks the stored token
  whatever its expiry.
\<close>

theorem token_expirado_rechazado:
  assumes qr: "qrTokens s tok = Some qr" and ex: "expiraEn qr < ahora"
    and s': "s' = s \<or> s' = limpiarExpirados t s \<or> s' = indiceTTL t s"
  shows "(fst (validarQR ahora tok s') = Inl QR_EXPIRED \<or> fst (validarQR ahora tok s') = Inl QR_NOT_FOUND)
       \<and> fst (validarQR ahora tok s) = Inl QR_EXPIRED
       \<and> fst (validarQR ahora tok (limpiarExpirados ahora s)) = Inl QR_NOT_FOUND
       \<and> (\<exists>err. agregarPuntos f ahora e emp tok mo s' = (Inl err, s'))
       \<and> fst (marcarComoUsado tok e s) = Some (qr\<lparr>usado := True, usadoPor := Some e\<rparr>)"
proof -
  from s' limpiarExpirados_token[OF qr ex, of t] indiceTTL_token[OF qr ex, of t] qr ex
  have nv: "qrTokens s' tok = None \<or> (\<exists>qr. qrTokens s' tok = Some qr \<and> expiraEn qr < ahora)"
    by auto
  from qr ex have "fst (validarQR ahora tok s) = Inl QR_EXPIRED"
    by (simp add: validarQR_def estaExpirado_def)
  moreover from qr ex have "fst (validarQR ahora tok (limpiarExpirados ahora s)) = Inl QR_NOT_FOUND"
    by (simp add: validarQR_def limpiarExpirados_def)
  moreover from qr have "fst (marcarComoUsado tok e s) = Some (qr\<lparr>usado := True, usadoPor := Some e\<rparr>)"
    by (simp add: marcarComoUsado_def Let_def)
  ultimately show ?thesis
    using validarQR_no_vigente[OF nv] agregarPuntos_no_vigente[OF nv, of f e emp mo] by blast
qed

text \<open>
  At 40000 the sample token is rejected as expired, as not found after
  \<open>limpiarExpirados\<close>, and a credit with it fails after the TTL index has run.
\<close>

theorem token_expirado_rechazado_witness:
  "qrTokens bdEjemplo ''qr-1'' = Some tokenEjemplo \<and> expiraEn tokenEjemplo < 40000
   \<and> fst (validarQR 40000 ''qr-1'' bdEjemplo) = Inl QR_EXPIRED
   \<and> fst (validarQR 40000 ''qr-1'' (limpiarExpirados 40000 bdEjemplo)) = Inl QR_NOT_FOUND
   \<and> (\<exists>err. agregarPuntos None 40000 22 empresaEjemplo ''qr-1'' (Some (Num 250))
                 (indiceTTL 95000 bdEjemplo) = (Inl err, indiceTTL 95000 bdEjemplo))"
proof -
  have x: "expiraEn tokenEjemplo < 40000"
    by (simp add: ejemplo_valores)
  from token_expirado_rechazado[OF ejemplo_valores(8) x,
      where s' = "indiceTTL 95000 bdEjemplo" and t = 95000 and f = None and e = 22
        and emp = empresaEjemplo and mo = "Some (Num 250)"]
    ejemplo_valores(8) x
  show ?thesis by simp
qed

section \<open>Terminal states of a redemption\<close>

text \<open>
  \<^bold>\<open>C7\<close> as stated fails in the error it names: the code has no error of its own for a
  redemption that is already delivered or cancelled. \<open>cancelar\<close> looks the redemption up
  by id, business and state \<open>pendiente\<close> in one query, and answers the same 404 for the
  delivered redemption 7 of the sample database, for the id 999 that does not exist and
  for the pending redemption 8 when another business (33) asks. \<open>marcarEntregado\<close> looks
  it up by id and business: another business gets the 404 of a redemption that does not
  exist, for the delivered redemption as for a missing one; only the redemption's own
  business is told that it was already delivered.
\<close>

theorem canje_terminal_sin_error_propio:
  "map_option estado (canjes bdEjemplo 7) = Some Entregado
   \<and> map_option cj_empresa (canjes bdEjemplo 7) = Some 22
   \<and> map_option estado (canjes bdEjemplo 8) = Some Pendiente
   \<and> canjes bdEjemplo 999 = None
   \<and> fst (cancelar None 3000 22 7 bdEjemplo) = Inl CanjeNoCancelable
   \<and> fst (cancelar None 3000 22 999 bdEjemplo) = Inl CanjeNoCancelable
   \<and> fst (cancelar None 3000 33 8 bdEjemplo) = Inl CanjeNoCancelable
   \<and> fst (marcarEntregado None 3000 33 7 bdEjemplo) = Inl CanjeNoEncontrado
   \<and> fst (marcarEntregado None 3000 33 999 bdEjemplo) = Inl CanjeNoEncontrado
   \<and> fst (marcarEntregado None 3000 22 7 bdEjemplo) = Inl CanjeYaEntregado"
  by (simp add: cancelar_def marcarEntregado_def ejemplo_defs)

lemma ejecutar_canje_terminal:
  assumes "canjes s k = Some c" and "estado c \<noteq> Pendiente"
  shows "canjes (snd (ejecutar op s)) k = Some c"
  unfolding snd_ejecutar using assms
  by (cases op)
    (simp_all add: agregarPuntos_canjes canjear_canjes marcarEntregado_canjes cancelar_canjes)

lemma ejecutar_canje_nuevo:
  assumes "canjes s k = None" and "canjes (snd (ejecutar op s)) k = Some c"
  shows "estado c = Pendiente"
proof (cases op)
  case (AgregarPuntos f a e emp tok mo)
  with assms show ?thesis by (simp add: snd_ejecutar agregarPuntos_canjes del: ejecutar.simps)
next
  case (Canjear f k' cod cid rid)
  with assms show ?thesis
    by (auto simp: snd_ejecutar canjear_def procesarCanje_def Let_def
        simp del: ejecutar.simps split: option.splits if_splits)
next
  case (MarcarEntregado f a e k')
  with assms show ?thesis
    by (auto simp: snd_ejecutar marcarEntregado_def
        simp del: ejecutar.simps split: option.splits if_splits)
next
  case (Cancelar f a e k')
  with assms show ?thesis
    by (auto simp: snd_ejecutar cancelar_def Let_def
        simp del: ejecutar.simps split: option.splits if_splits)
qed

text \<open>
  \<^bold>\<open>C7\<close>, amended (terminal states are final). For a redemption that is delivered or
  cancelled: marcarEntregado fails and changes nothing, with the error for a delivered or
  for a cancelled redemption when the caller is its business, and the error of a
  redemption not found otherwise; cancelar fails with its only refusal (not found or not
  cancellable) and changes nothing; and no request of any kind changes the redemption
  document. A redemption document that a request creates is pending, so the only
  transitions are from pending to delivered and from pending to cancelled.
\<close>

theorem canje_terminal_inmutable:
  assumes c: "canjes s k = Some c" and t: "estado c = Entregado \<or> estado c = Cancelado"
  shows "marcarEntregado falla ahora e k s =
           (Inl (if cj_empresa c \<noteq> e then CanjeNoEncontrado
                 else if estado c = Entregado then CanjeYaEntregado else CanjeCancelado), s)
       \<and> cancelar falla ahora e k s = (Inl CanjeNoCancelable, s)
       \<and> canjes (snd (ejecutar op s)) k = Some c
       \<and> (\<forall>j d. canjes s j = None \<and> canjes (snd (ejecutar op s)) j = Some d \<longrightarrow> estado d = Pendiente)"
proof -
  from t have np: "estado c \<noteq> Pendiente" by auto
  from c t have "marcarEntregado falla ahora e k s =
           (Inl (if cj_empresa c \<noteq> e then CanjeNoEncontrado
                 else if estado c = Entregado then CanjeYaEntregado else CanjeCancelado), s)"
    by (auto simp: marcarEntregado_def)
  moreover from c np have "cancelar falla ahora e k s = (Inl CanjeNoCancelable, s)"
    by (simp add: cancelar_def)
  moreover from c np have "canjes (snd (ejecutar op s)) k = Some c"
    by (rule ejecutar_canje_terminal)
  ultimately show ?thesis using ejecutar_canje_nuevo[of s _ op] by blast
qed

text \<open>
  The delivered redemption 7 of the sample database: both calls by its business fail and
  return the database as it was; the redemption that a canjear creates under the unused
  id 9 is pending.
\<close>

theorem canje_terminal_inmutable_witness:
  "canjes bdEjemplo 7 = Some (canjeEjemplo Entregado)
   \<and> marcarEntregado None 3000 22 7 bdEjemplo = (Inl CanjeYaEntregado, bdEjemplo)
   \<and> cancelar None 3000 22 7 bdEjemplo = (Inl CanjeNoCancelable, bdEjemplo)
   \<and> canjes (snd (ejecutar (Cancelar None 3000 22 7) bdEjemplo)) 7 = Some (canjeEjemplo Entregado)
   \<and> canjes bdEjemplo 9 = None
   \<and> map_option estado
        (canjes (snd (ejecutar (Canjear None 9 ''CJ-A1B2C3D4'' 11 (Some 101)) bdEjemplo)) 9)
       = Some Pendiente"
proof -
  have t: "estado (canjeEjemplo Entregado) = Entregado \<or> estado (canjeEjemplo Entregado) = Cancelado"
    by (simp add: ejemplo_valores)
  have "canjes (snd (ejecutar (Canjear None 9 ''CJ-A1B2C3D4'' 11 (Some 101)) bdEjemplo)) 9 \<noteq> None"
    by (simp add: ejemplo_defs evaluar)
  then obtain d where
    d: "canjes (snd (ejecutar (Canjear None 9 ''CJ-A1B2C3D4'' 11 (Some 101)) bdEjemplo)) 9 = Some d"
    by blast
  have n9: "canjes bdEjemplo 9 = None"
    by (simp add: ejemplo_valores)
  from canje_terminal_inmutable[OF ejemplo_valores(6) t,
      where op = "Canjear None 9 ''CJ-A1B2C3D4'' 11 (Some 101)"] d n9
  have "estado d = Pendiente" by blast
  with d have n: "map_option estado
        (canjes (snd (ejecutar (Canjear None 9 ''CJ-A1B2C3D4'' 11 (Some 101)) bdEjemplo)) 9)
       = Some Pendiente" by simp
  from canje_terminal_inmutable[OF ejemplo_valores(6) t,
      where falla = None and ahora = 3000 and e = 22 and op = "Cancelar None 3000 22 7"] n
  show ?thesis by (simp add: ejemplo_valores)
qed

section \<open>Failed requests\<close>

text \<open>
  \<^bold>\<open>C8\<close> as stated fails: the writes of a request are separate saves and the \<open>catch\<close>
  block undoes none. When the last write of cancelar (\<open>canje.save()\<close>) is rejected, the
  request answers 500, the customer has the points back (52 instead of 50) and the
  redemption is still pending.
\<close>

theorem cancelar_fallo_parcial:
  "fst (cancelar (Some 2) 600 22 8 bdEjemplo) = Inl ErrorServidor
   \<and> map_option puntos (usuarios bdEjemplo 11) = Some 50
   \<and> map_option puntos (usuarios (snd (cancelar (Some 2) 600 22 8 bdEjemplo)) 11) = Some 52
   \<and> map_option estado (canjes (snd (cancelar (Some 2) 600 22 8 bdEjemplo)) 8) = Some Pendiente"
  by (simp add: cancelar_def ejemplo_defs rechaza_def Let_def sumarPuntos_def doble_eval)

lemma otorgarPuntos_sin_cambios:
  "fst (otorgarPuntos f a e emp tok m cid s) = Inl err \<Longrightarrow> f = Some 0 \<Longrightarrow>
     snd (otorgarPuntos f a e emp tok m cid s) = s"
  by (auto simp: otorgarPuntos_def Let_def rechaza_def split: option.splits)

lemma agregarPuntos_sin_cambios:
  assumes "fst (agregarPuntos f a e emp tok mo s) = Inl err" and "err \<noteq> ErrorServidor \<or> f = Some 0"
  shows "snd (agregarPuntos f a e emp tok mo s) = s"
  using assms otorgarPuntos_error[of f a e emp tok _ _ s err]
    otorgarPuntos_sin_cambios[of f a e emp tok _ _ s err]
  by (auto simp: agregarPuntos_def split: option.splits numero.splits sum.splits if_splits)

lemma procesarCanje_sin_cambios:
  "fst (procesarCanje f k cod cid u rid r s) = Inl err \<Longrightarrow> f = None \<or> f = Some 0 \<Longrightarrow>
     snd (procesarCanje f k cod cid u rid r s) = s"
  by (auto simp: procesarCanje_def Let_def rechaza_def split: if_splits)

lemma procesarCanje_error:
  "fst (procesarCanje f k cod cid u rid r s) = Inl err \<Longrightarrow> err = ErrorServidor"
  by (auto simp: procesarCanje_def Let_def split: if_splits)

lemma canjear_sin_cambios:
  assumes "fst (canjear f k cod cid rid s) = Inl err"
    and "err \<noteq> ErrorServidor \<or> f = None \<or> f = Some 0"
  shows "snd (canjear f k cod cid rid s) = s"
  using assms procesarCanje_error[of f k cod cid _ _ _ s err]
    procesarCanje_sin_cambios[of f k cod cid _ _ _ s err]
  by (auto simp: canjear_def split: option.splits if_splits)

lemma cancelar_sin_cambios:
  assumes "fst (cancelar f a e k s) = Inl err"
    and "err \<noteq> ErrorServidor \<or> f = None \<or> f = Some 0"
  shows "snd (cancelar f a e k s) = s"
  using assms
  by (auto simp: cancelar_def Let_def rechaza_def split: option.splits if_splits)

lemma cancelar_cancelado_devuelve:
  assumes "canjes s k = Some c" and "estado c = Pendiente"
    and "canjes (snd (cancelar f a e k s)) k = Some c'" and "estado c' = Cancelado"
  shows "\<exists>u. usuarios s (cj_cliente c) = Some u
            \<and> usuarios (snd (cancelar f a e k s)) (cj_cliente c)
                = Some (sumarPuntos (cj_empresa c) (puntosCanjeados c) a u)"
  using assms
  by (auto simp: cancelar_def Let_def split: option.splits if_splits)

text \<open>
  \<^bold>\<open>C8\<close>, amended. A request that fails before its first write succeeds leaves the
  whole state as it was: agregarPuntos when it answers with a specific error or its
  first write is rejected; canjear and cancelar when they answer with a specific error,
  when no write is rejected by the store, or when the first write is. Writes already made
  stay when a later write is rejected. A redemption that cancelar leaves cancelled has
  its points returned to the customer.
\<close>

theorem fallo_antes_de_escribir:
  "(fst (agregarPuntos f a e emp tok mo s) = Inl err \<and> (err \<noteq> ErrorServidor \<or> f = Some 0) \<longrightarrow>
      snd (agregarPuntos f a e emp tok mo s) = s)
   \<and> (fst (canjear f k cod cid rid s) = Inl err \<and> (err \<noteq> ErrorServidor \<or> f = None \<or> f = Some 0) \<longrightarrow>
      snd (canjear f k cod cid rid s) = s)
   \<and> (fst (cancelar f a e k s) = Inl err \<and> (err \<noteq> ErrorServidor \<or> f = None \<or> f = Some 0) \<longrightarrow>
      snd (cancelar f a e k s) = s)
   \<and> (\<forall>c c'. canjes s k = Some c \<and> estado c = Pendiente
          \<and> canjes (snd (cancelar f a e k s)) k = Some c' \<and> estado c' = Cancelado \<longrightarrow>
        (\<exists>u. usuarios s (cj_cliente c) = Some u
            \<and> usuarios (snd (cancelar f a e k s)) (cj_cliente c)
                = Some (sumarPuntos (cj_empresa c) (puntosCanjeados c) a u)))"
  using agregarPuntos_sin_cambios[of f a e emp tok mo s err]
    canjear_sin_cambios[of f k cod cid rid s err]
    cancelar_sin_cambios[of f a e k s err]
    cancelar_cancelado_devuelve[of s k _ f a e]
  by blast

text \<open>
  On the sample database: a redemption the customer cannot afford, a credit with an
  expired token, and a cancellation whose first write is rejected all return the database
  unchanged; the cancellation that succeeds leaves redemption 8 cancelled and the
  customer credited with its 2 points.
\<close>

theorem fallo_antes_de_escribir_witness:
  "canjear None 9 ''CJ-A1B2C3D4'' 11 (Some 103) bdEjemplo
     = (Inl (PuntosInsuficientes 50 60 10), bdEjemplo)
   \<and> agregarPuntos None 40000 22 empresaEjemplo ''qr-1'' (Some (Num 250)) bdEjemplo
     = (Inl (QrInvalido QR_EXPIRED), bdEjemplo)
   \<and> cancelar (Some 0) 600 22 8 bdEjemplo = (Inl ErrorServidor, bdEjemplo)
   \<and> canjes (snd (cancelar None 600 22 8 bdEjemplo)) 8 = Some (canjeEjemplo Cancelado)
   \<and> usuarios (snd (cancelar None 600 22 8 bdEjemplo)) 11
       = Some (sumarPuntos 22 2 600 clienteEjemplo)"
proof -
  have a: "fst (canjear None 9 ''CJ-A1B2C3D4'' 11 (Some 103) bdEjemplo)
             = Inl (PuntosInsuficientes 50 60 10)"
    and b: "fst (agregarPuntos None 40000 22 empresaEjemplo ''qr-1'' (Some (Num 250)) bdEjemplo)
             = Inl (QrInvalido QR_EXPIRED)"
    and c: "fst (cancelar (Some 0) 600 22 8 bdEjemplo) = Inl ErrorServidor"
    and d: "canjes (snd (cancelar None 600 22 8 bdEjemplo)) 8 = Some (canjeEjemplo Cancelado)"
    by (simp_all add: ejemplo_defs evaluar)
  from fallo_antes_de_escribir[where f = None and a = 40000 and e = 22 and emp = empresaEjemplo
        and tok = "''qr-1''" and mo = "Some (Num 250)" and s = bdEjemplo
        and err = "QrInvalido QR_EXPIRED"] b
  have b': "snd (agregarPuntos None 40000 22 empresaEjemplo ''qr-1'' (Some (Num 250)) bdEjemplo)
             = bdEjemplo" by simp
  from fallo_antes_de_escribir[where f = None and s = bdEjemplo
        and err = "PuntosInsuficientes 50 60 10" and k = 9 and cod = "''CJ-A1B2C3D4''"
        and cid = 11 and rid = "Some 103"] a
  have a': "snd (canjear None 9 ''CJ-A1B2C3D4'' 11 (Some 103) bdEjemplo) = bdEjemplo" by simp
  from fallo_antes_de_escribir[where f = "Some 0" and a = 600 and e = 22 and s = bdEjemplo
        and err = ErrorServidor and k = 8] c
  have c': "snd (cancelar (Some 0) 600 22 8 bdEjemplo) = bdEjemplo" by simp
  from fallo_antes_de_escribir[where f = None and a = 600 and e = 22 and s = bdEjemplo and k = 8]
  have "canjes bdEjemplo 8 = Some (canjeEjemplo Pendiente) \<and> estado (canjeEjemplo Pendiente) = Pendiente
          \<and> canjes (snd (cancelar None 600 22 8 bdEjemplo)) 8 = Some (canjeEjemplo Cancelado)
          \<and> estado (canjeEjemplo Cancelado) = Cancelado
        \<longrightarrow> (\<exists>u. usuarios bdEjemplo (cj_cliente (canjeEjemplo Pendiente)) = Some u
              \<and> usuarios (snd (cancelar None 600 22 8 bdEjemplo)) (cj_cliente (canjeEjemplo Pendiente))
                  = Some (sumarPuntos (cj_empresa (canjeEjemplo Pendiente))
                            (puntosCanjeados (canjeEjemplo Pendiente)) 600 u))"
    by blast
  with d have d': "usuarios (snd (cancelar None 600 22 8 bdEjemplo)) 11
       = Some (sumarPuntos 22 2 600 clienteEjemplo)"
    by (simp add: ejemplo_valores canjeEjemplo_def)
  from a a' b b' c c' d d' show ?thesis by (simp add: prod_eq_iff)
qed

section \<open>The floor at zero in canjear\<close>



section \<open>The order of the checks of validarQR\<close>

text \<open>
  \<^bold>\<open>C10\<close> (precedence of the outcomes). \<open>validarQR\<close> changes nothing and reports the
  first failing check in the order: token not found, expired, already used, customer
  missing, customer inactive; otherwise the token is valid. An expired token is reported
  as \<open>QR_EXPIRED\<close> whether or not it is used.
\<close>

theorem validarQR_precedencia:
  "snd (validarQR ahora tok s) = s
   \<and> (qrTokens s tok = None \<longrightarrow> fst (validarQR ahora tok s) = Inl QR_NOT_FOUND)
   \<and> (\<forall>qr. qrTokens s tok = Some qr \<longrightarrow>
        (expiraEn qr < ahora \<longrightarrow> fst (validarQR ahora tok s) = Inl QR_EXPIRED)
      \<and> (\<not> expiraEn qr < ahora \<and> usado qr \<longrightarrow> fst (validarQR ahora tok s) = Inl QR_USED)
      \<and> (\<not> expiraEn qr < ahora \<and> \<not> usado qr \<and> usuarios s (clienteId qr) = None \<longrightarrow>
           fst (validarQR ahora tok s) = Inl CLIENT_NOT_FOUND)
      \<and> (\<forall>cl. \<not> expiraEn qr < ahora \<and> \<not> usado qr \<and> usuarios s (clienteId qr) = Some cl \<longrightarrow>
           fst (validarQR ahora tok s)
             = (if activo cl then Inr (clienteId qr) else Inl CLIENT_INACTIVE)))"
  by (auto simp: validarQR_def estaExpirado_def split: option.splits)

text \<open>
  The token \<open>qr-2\<close> of the sample database is both expired and used, and is reported as
  expired; \<open>qr-0\<close> does not exist; \<open>qr-3\<close> is used; the customer of \<open>qr-4\<close> is missing and
  the one of \<open>qr-5\<close> inactive; \<open>qr-1\<close> is valid.
\<close>

theorem validarQR_precedencia_witness:
  "qrTokens bdEjemplo ''qr-2'' = Some tokenViejo \<and> expiraEn tokenViejo < 1000 \<and> usado tokenViejo
   \<and> validarQR 1000 ''qr-2'' bdEjemplo = (Inl QR_EXPIRED, bdEjemplo)
   \<and> validarQR 1000 ''qr-0'' bdEjemplo = (Inl QR_NOT_FOUND, bdEjemplo)
   \<and> validarQR 1000 ''qr-3'' bdEjemplo = (Inl QR_USED, bdEjemplo)
   \<and> validarQR 1000 ''qr-4'' bdEjemplo = (Inl CLIENT_NOT_FOUND, bdEjemplo)
   \<and> validarQR 1000 ''qr-5'' bdEjemplo = (Inl CLIENT_INACTIVE, bdEjemplo)
   \<and> validarQR 1000 ''qr-1'' bdEjemplo = (Inr 11, bdEjemplo)"
  using validarQR_precedencia[of 1000 "''qr-2''" bdEjemplo]
    validarQR_precedencia[of 1000 "''qr-0''" bdEjemplo]
    validarQR_precedencia[of 1000 "''qr-3''" bdEjemplo]
    validarQR_precedencia[of 1000 "''qr-4''" bdEjemplo]
    validarQR_precedencia[of 1000 "''qr-5''" bdEjemplo]
    validarQR_precedencia[of 1000 "''qr-1''" bdEjemplo]
  by (simp add: ejemplo_valores prod_eq_iff)

end
